theory Spec2Isabelle
  imports Main
begin

section \<open>Python strings\<close>

text \<open>
  A Python \<open>str\<close> is a \<open>string\<close>: the list of the bytes of its UTF-8 encoding, so an
  ASCII character is one \<open>char\<close>. The character classes of \<open>str.strip\<close>, \<open>str.lower\<close>
  and of the patterns of the recipient, sender and authentication parsers (\<open>\s\<close>,
  \<open>\w\<close>, \<open>\b\<close>) are those of the ASCII range; a byte above 127 is neither whitespace
  nor a word character there and has no case. The digits and the whitespace of the
  date pattern and of \<open>int\<close> are those of Unicode, below.
\<close>

definition code :: "char \<Rightarrow> nat" where
  "code c = of_char c"

definition is_space :: "char \<Rightarrow> bool" where
  "is_space c = (let n = code c in (9 \<le> n \<and> n \<le> 13) \<or> (28 \<le> n \<and> n \<le> 32))"

definition is_digit :: "char \<Rightarrow> bool" where
  "is_digit c = (let n = code c in 48 \<le> n \<and> n \<le> 57)"

definition is_upper :: "char \<Rightarrow> bool" where
  "is_upper c = (let n = code c in 65 \<le> n \<and> n \<le> 90)"

definition is_lower :: "char \<Rightarrow> bool" where
  "is_lower c = (let n = code c in 97 \<le> n \<and> n \<le> 122)"

definition is_word :: "char \<Rightarrow> bool" where
  "is_word c = (is_digit c \<or> is_upper c \<or> is_lower c \<or> c = CHR ''_'')"

definition lower_char :: "char \<Rightarrow> char" where
  "lower_char c = (if is_upper c then char_of (code c + 32) else c)"

definition upper_char :: "char \<Rightarrow> char" where
  "upper_char c = (if is_lower c then char_of (code c - 32) else c)"

definition lower :: "string \<Rightarrow> string" where
  "lower s = map lower_char s"

definition lstrip :: "string \<Rightarrow> string" where
  "lstrip s = dropWhile is_space s"

definition strip :: "string \<Rightarrow> string" where
  "strip s = rev (dropWhile is_space (rev (dropWhile is_space s)))"

fun startswith :: "string \<Rightarrow> string \<Rightarrow> bool" where
  "startswith s [] = True"
| "startswith [] (p # ps) = False"
| "startswith (c # cs) (p # ps) = (c = p \<and> startswith cs ps)"

text \<open>\<open>sub in s\<close>: the substring test.\<close>

fun contains :: "string \<Rightarrow> string \<Rightarrow> bool" where
  "contains [] sub = (sub = [])"
| "contains (c # cs) sub = (startswith (c # cs) sub \<or> contains cs sub)"

text \<open>
  \<open>s.replace(old, new)\<close> for a non-empty \<open>old\<close>: the occurrences are taken from the
  left and do not overlap. \<open>skip\<close> counts the characters of an occurrence still to be
  dropped.
\<close>

fun replace_aux :: "string \<Rightarrow> string \<Rightarrow> nat \<Rightarrow> string \<Rightarrow> string" where
  "replace_aux old new skip [] = []"
| "replace_aux old new skip (c # cs) =
     (if 0 < skip then replace_aux old new (skip - 1) cs
      else if startswith (c # cs) old then new @ replace_aux old new (length old - 1) cs
      else c # replace_aux old new 0 cs)"

definition replace :: "string \<Rightarrow> string \<Rightarrow> string \<Rightarrow> string" where
  "replace s old new = replace_aux old new 0 s"

text \<open>\<open>s.split(c)[0]\<close>: the text before the first \<open>c\<close>, all of \<open>s\<close> when there is none.\<close>

definition split_first :: "string \<Rightarrow> char \<Rightarrow> string" where
  "split_first s c = takeWhile (\<lambda>x. x \<noteq> c) s"

subsection \<open>Unicode digits and whitespace\<close>

text \<open>The first character of a UTF-8 text, as its code point, and the text behind it.\<close>

definition is_cont :: "char \<Rightarrow> bool" where
  "is_cont c = (let n = code c in 128 \<le> n \<and> n \<le> 191)"

definition cont_val :: "char \<Rightarrow> int" where
  "cont_val c = int (code c) - 128"

definition utf8_head :: "string \<Rightarrow> (int \<times> string) option" where
  "utf8_head s =
     (case s of
        [] \<Rightarrow> None
      | c # cs \<Rightarrow>
          (let b = int (code c)
           in if b < 128 then Some (b, cs)
              else if b < 194 then None
              else if b < 224 then
                (case cs of
                   c1 # r \<Rightarrow> if is_cont c1 then Some ((b - 192) * 64 + cont_val c1, r) else None
                 | _ \<Rightarrow> None)
              else if b < 240 then
                (case cs of
                   c1 # c2 # r \<Rightarrow>
                     if is_cont c1 \<and> is_cont c2
                     then Some (((b - 224) * 64 + cont_val c1) * 64 + cont_val c2, r) else None
                 | _ \<Rightarrow> None)
              else if b < 245 then
                (case cs of
                   c1 # c2 # c3 # r \<Rightarrow>
                     if is_cont c1 \<and> is_cont c2 \<and> is_cont c3
                     then Some ((((b - 240) * 64 + cont_val c1) * 64 + cont_val c2) * 64
                                 + cont_val c3, r)
                     else None
                 | _ \<Rightarrow> None)
              else None))"

text \<open>
  The decimal digits of Unicode 14 (the characters \<open>\d\<close> matches and \<open>int\<close> reads)
  come in runs of ten, zero to nine; these are the code points of the zeros.
\<close>

definition decimal_starts :: "int list" where
  "decimal_starts =
     [48, 1632, 1776, 1984, 2406, 2534, 2662, 2790, 2918, 3046, 3174, 3302, 3430, 3558,
      3664, 3792, 3872, 4160, 4240, 6112, 6160, 6470, 6608, 6784, 6800, 6992, 7088, 7232,
      7248, 42528, 43216, 43264, 43472, 43504, 43600, 44016, 65296, 66720, 68912, 69734,
      69872, 69942, 70096, 70384, 70736, 70864, 71248, 71360, 71472, 71904, 72016, 72784,
      73040, 73120, 92768, 92864, 93008, 120782, 120792, 120802, 120812, 120822, 123200,
      123632, 125264, 130032]"

definition decimal_value :: "int \<Rightarrow> int option" where
  "decimal_value cp =
     (case filter (\<lambda>z. z \<le> cp \<and> cp \<le> z + 9) decimal_starts of
        [] \<Rightarrow> None
      | z # _ \<Rightarrow> Some (cp - z))"

text \<open>The whitespace of Unicode (the characters \<open>\s\<close> matches).\<close>

definition unicode_spaces :: "int list" where
  "unicode_spaces =
     [9, 10, 11, 12, 13, 28, 29, 30, 31, 32, 133, 160, 5760, 8192, 8193, 8194, 8195, 8196,
      8197, 8198, 8199, 8200, 8201, 8202, 8232, 8233, 8239, 8287, 12288]"

definition is_unicode_space :: "int \<Rightarrow> bool" where
  "is_unicode_space cp = (cp \<in> set unicode_spaces)"

text \<open>
  What \<open>int\<close> does to its text before reading it: a decimal digit becomes the ASCII
  digit of its value, whitespace above the ASCII range a space, any other character
  above the ASCII range a question mark. \<open>skip\<close> counts the bytes of a character still
  to be passed.
\<close>

fun decimal_and_space_to_ascii_aux :: "nat \<Rightarrow> string \<Rightarrow> string" where
  "decimal_and_space_to_ascii_aux skip [] = []"
| "decimal_and_space_to_ascii_aux skip (c # cs) =
     (if 0 < skip then decimal_and_space_to_ascii_aux (skip - 1) cs
      else if code c < 128 then c # decimal_and_space_to_ascii_aux 0 cs
      else (case utf8_head (c # cs) of
              None \<Rightarrow> CHR ''?'' # decimal_and_space_to_ascii_aux 0 cs
            | Some (cp, r) \<Rightarrow>
                (if is_unicode_space cp then CHR '' ''
                 else (case decimal_value cp of
                         Some v \<Rightarrow> char_of (48 + nat v)
                       | None \<Rightarrow> CHR ''?''))
                # decimal_and_space_to_ascii_aux (length cs - length r) cs))"

definition decimal_and_space_to_ascii :: "string \<Rightarrow> string" where
  "decimal_and_space_to_ascii s = decimal_and_space_to_ascii_aux 0 s"

text \<open>The whitespace that \<open>int\<close> passes over at both ends of the text it reads.\<close>

definition is_c_space :: "char \<Rightarrow> bool" where
  "is_c_space c = (let n = code c in (9 \<le> n \<and> n \<le> 13) \<or> n = 32)"

definition c_strip :: "string \<Rightarrow> string" where
  "c_strip s = rev (dropWhile is_c_space (rev (dropWhile is_c_space s)))"

section \<open>Regular expressions\<close>

text \<open>
  The patterns of the program are written in this syntax and run by a backtracking
  matcher: \<open>matches r st\<close> lists the states in which \<open>r\<close> can end when started in
  \<open>st\<close>, in the order in which Python's \<open>re\<close> tries them (the left alternative first,
  the longest repetition first), so its head is the match \<open>re\<close> reports. All
  repetitions of the program's patterns are greedy and none of its patterns matches
  the empty string.
\<close>

datatype citem = C char | Range char char | Space | Word

fun in_item :: "char \<Rightarrow> citem \<Rightarrow> bool" where
  "in_item c (C d) = (c = d)"
| "in_item c (Range a b) = (code a \<le> code c \<and> code c \<le> code b)"
| "in_item c Space = is_space c"
| "in_item c Word = is_word c"

datatype regex =
    OneOf "citem list"
  | NoneOf "citem list"
  | Dot
  | Seq regex regex
  | Alt regex regex
  | Star regex
  | Group nat regex
  | WordB
  | Eps
  | UDigit
  | USpace

datatype mstate = MState (prev: "char option") (rest: string) (groups: "(nat \<times> string) list")

definition step_char :: "(char \<Rightarrow> bool) \<Rightarrow> mstate \<Rightarrow> mstate list" where
  "step_char ok st =
     (case rest st of
        [] \<Rightarrow> []
      | c # cs \<Rightarrow> if ok c then [MState (Some c) cs (groups st)] else [])"

text \<open>
  One character of a UTF-8 text whose code point is in a class of Unicode (the \<open>\d\<close>
  and \<open>\s\<close> of the date pattern).
\<close>

definition step_codepoint :: "(int \<Rightarrow> bool) \<Rightarrow> mstate \<Rightarrow> mstate list" where
  "step_codepoint ok st =
     (case utf8_head (rest st) of
        None \<Rightarrow> []
      | Some (cp, r) \<Rightarrow>
          if ok cp
          then [MState (Some (rest st ! (length (rest st) - length r - 1))) r (groups st)]
          else [])"

text \<open>\<open>\b\<close>: exactly one of the characters around the position is a word character.\<close>

definition at_boundary :: "mstate \<Rightarrow> bool" where
  "at_boundary st =
     ((case prev st of None \<Rightarrow> False | Some c \<Rightarrow> is_word c)
      \<noteq> (case rest st of [] \<Rightarrow> False | c # cs \<Rightarrow> is_word c))"

definition capture :: "nat \<Rightarrow> mstate \<Rightarrow> mstate \<Rightarrow> mstate" where
  "capture i st st' =
     MState (prev st') (rest st')
       ((i, take (length (rest st) - length (rest st')) (rest st)) # groups st')"

text \<open>
  A greedy repetition: one more round first, then stopping. A round has to consume a
  character, so the length of the text bounds the number of rounds.
\<close>

fun star :: "(mstate \<Rightarrow> mstate list) \<Rightarrow> nat \<Rightarrow> mstate \<Rightarrow> mstate list" where
  "star f 0 st = [st]"
| "star f (Suc n) st =
     concat (map (star f n) (filter (\<lambda>st'. length (rest st') < length (rest st)) (f st))) @ [st]"

primrec matches :: "regex \<Rightarrow> mstate \<Rightarrow> mstate list" where
  "matches (OneOf items) st = step_char (\<lambda>c. \<exists>i \<in> set items. in_item c i) st"
| "matches (NoneOf items) st = step_char (\<lambda>c. \<not> (\<exists>i \<in> set items. in_item c i)) st"
| "matches Dot st = step_char (\<lambda>c. c \<noteq> CHR 0x0A) st"
| "matches (Seq r1 r2) st = concat (map (matches r2) (matches r1 st))"
| "matches (Alt r1 r2) st = matches r1 st @ matches r2 st"
| "matches (Star r) st = star (matches r) (length (rest st)) st"
| "matches (Group i r) st = map (capture i st) (matches r st)"
| "matches WordB st = (if at_boundary st then [st] else [])"
| "matches Eps st = [st]"
| "matches UDigit st = step_codepoint (\<lambda>cp. decimal_value cp \<noteq> None) st"
| "matches USpace st = step_codepoint is_unicode_space st"

definition Plus :: "regex \<Rightarrow> regex" where
  "Plus r = Seq r (Star r)"

definition Opt :: "regex \<Rightarrow> regex" where
  "Opt r = Alt r Eps"

definition Lit :: "char \<Rightarrow> regex" where
  "Lit c = OneOf [C c]"

definition Lits :: "string \<Rightarrow> regex" where
  "Lits s = foldr (\<lambda>c r. Seq (Lit c) r) s Eps"

text \<open>\<open>m.group(i)\<close>: the text of the last capture of group \<open>i\<close>, if it took part.\<close>

definition group :: "mstate \<Rightarrow> nat \<Rightarrow> string option" where
  "group st i = map_of (groups st) i"

text \<open>
  \<open>re.findall\<close> and \<open>re.search\<close> try the pattern at every position from the left; after
  a match \<open>findall\<close> goes on behind it (\<open>skip\<close> counts the characters of the match
  still to be passed).
\<close>

fun findall_aux :: "regex \<Rightarrow> nat \<Rightarrow> char option \<Rightarrow> string \<Rightarrow> mstate list" where
  "findall_aux r skip p [] =
     (if 0 < skip then [] else take 1 (matches r (MState p [] [])))"
| "findall_aux r skip p (c # cs) =
     (if 0 < skip then findall_aux r (skip - 1) (Some c) cs
      else (case matches r (MState p (c # cs) []) of
              [] \<Rightarrow> findall_aux r 0 (Some c) cs
            | st # _ \<Rightarrow> st # findall_aux r (length (c # cs) - length (rest st) - 1) (Some c) cs))"

definition findall :: "regex \<Rightarrow> string \<Rightarrow> mstate list" where
  "findall r s = findall_aux r 0 None s"

fun search_aux :: "regex \<Rightarrow> char option \<Rightarrow> string \<Rightarrow> mstate option" where
  "search_aux r p [] = (case matches r (MState p [] []) of [] \<Rightarrow> None | st # _ \<Rightarrow> Some st)"
| "search_aux r p (c # cs) =
     (case matches r (MState p (c # cs) []) of
        [] \<Rightarrow> search_aux r (Some c) cs
      | st # _ \<Rightarrow> Some st)"

definition search :: "regex \<Rightarrow> string \<Rightarrow> mstate option" where
  "search r s = search_aux r None s"

section \<open>Recipient Parser\<close>

text \<open>
  The name part \<open>[^<,"'\s]+(?:\s+[^<,"'\s]+)*\<close> of the first alternative, the
  address in angle brackets, and the bare address of the second alternative.
\<close>

definition name_chars :: regex where
  "name_chars = NoneOf [C (CHR ''<''), C (CHR '',''), C (CHR 0x22), C (CHR 0x27), Space]"

definition recipient_name :: regex where
  "recipient_name = Seq (Plus name_chars) (Star (Seq (Plus (OneOf [Space])) (Plus name_chars)))"

definition recipient_named :: regex where
  "recipient_named =
     Seq (Group 1 recipient_name)
       (Seq (Star (OneOf [Space]))
          (Seq (Lit (CHR ''<''))
             (Seq (Group 2 (Plus (NoneOf [C (CHR ''>'')]))) (Lit (CHR ''>'')))))"

definition alnum_items :: "citem list" where
  "alnum_items = [Range (CHR ''A'') (CHR ''Z''), Range (CHR ''a'') (CHR ''z''),
                  Range (CHR ''0'') (CHR ''9'')]"

definition tld_char :: regex where
  "tld_char = OneOf [Range (CHR ''A'') (CHR ''Z''), C (CHR ''|''), Range (CHR ''a'') (CHR ''z'')]"

definition recipient_bare :: regex where
  "recipient_bare =
     Group 3
       (Seq WordB
          (Seq (Plus (OneOf (alnum_items @ [C (CHR ''.''), C (CHR ''_''), C (CHR ''%''),
                                            C (CHR ''+''), C (CHR ''-'')])))
             (Seq (Lit (CHR ''@''))
                (Seq (Plus (OneOf (alnum_items @ [C (CHR ''.''), C (CHR ''-'')])))
                   (Seq (Lit (CHR ''.''))
                      (Seq tld_char (Seq tld_char (Seq (Star tld_char) WordB))))))))"

definition recipient_regex :: regex where
  "recipient_regex = Alt recipient_named recipient_bare"

text \<open>
  \<open>parse_recipients\<close>: one pair per match; a match of the first shape has group 2 and
  gives the stripped name without double quotes, a match of the second shape gives an
  empty name. \<open>findall\<close> reports a group that took no part as the empty string.
\<close>

definition group_text :: "mstate \<Rightarrow> nat \<Rightarrow> string" where
  "group_text st i = (case group st i of None \<Rightarrow> [] | Some t \<Rightarrow> t)"

definition recipient_of_match :: "mstate \<Rightarrow> (string \<times> string) list" where
  "recipient_of_match m =
     (if group_text m 2 \<noteq> [] then
        [(filter (\<lambda>c. c \<noteq> CHR 0x22) (strip (group_text m 1)), group_text m 2)]
      else if group_text m 3 \<noteq> [] then [([], group_text m 3)]
      else [])"

definition parse_recipients :: "string option \<Rightarrow> (string \<times> string) list" where
  "parse_recipients header_value =
     (case header_value of
        None \<Rightarrow> []
      | Some v \<Rightarrow> if v = [] then [] else concat (map recipient_of_match (findall recipient_regex v)))"

section \<open>Errors\<close>

text \<open>The exceptions the program can meet, as values.\<close>

datatype error =
    KeyError
  | ValueError
  | TypeError
  | IndexError
  | AttributeError
  | OverflowError
  | OSError
  | Base64Error
  | IntegrityError
  | InterfaceError
  | OperationalError

section \<open>Base64 and UTF-8\<close>

text \<open>
  \<open>base64.urlsafe_b64decode\<close> of a \<open>str\<close>: the text has to be ASCII (ValueError
  otherwise), \<open>-\<close> and \<open>_\<close> stand for \<open>+\<close> and \<open>/\<close>, and the result is that of
  \<open>binascii.a2b_base64\<close> in its default, non-strict mode: a character outside the
  alphabet is passed over, padding ends the data once a group of four is complete, and
  data that ends inside a group raises \<open>binascii.Error\<close>.
\<close>

definition b64_value :: "char \<Rightarrow> nat option" where
  "b64_value c =
     (let n = code c in
      if is_upper c then Some (n - 65)
      else if is_lower c then Some (n - 97 + 26)
      else if is_digit c then Some (n - 48 + 52)
      else if c = CHR ''+'' \<or> c = CHR ''-'' then Some 62
      else if c = CHR ''/'' \<or> c = CHR ''_'' then Some 63
      else None)"

fun a2b_base64 :: "nat \<Rightarrow> nat \<Rightarrow> nat \<Rightarrow> string \<Rightarrow> error + string" where
  "a2b_base64 quad_pos leftchar pads [] =
     (if quad_pos \<noteq> 0 then Inl Base64Error else Inr [])"
| "a2b_base64 quad_pos leftchar pads (c # cs) =
     (if c = CHR ''='' then
        (if 2 \<le> quad_pos \<and> 4 \<le> quad_pos + (pads + 1) then Inr []
         else a2b_base64 quad_pos leftchar (if 2 \<le> quad_pos then pads + 1 else pads) cs)
      else
        (case b64_value c of
           None \<Rightarrow> a2b_base64 quad_pos leftchar pads cs
         | Some v \<Rightarrow>
             (if quad_pos = 0 then a2b_base64 1 v 0 cs
              else if quad_pos = 1 then
                map_sum id ((#) (char_of (leftchar * 4 + v div 16)))
                  (a2b_base64 2 (v mod 16) 0 cs)
              else if quad_pos = 2 then
                map_sum id ((#) (char_of (leftchar * 16 + v div 4)))
                  (a2b_base64 3 (v mod 4) 0 cs)
              else
                map_sum id ((#) (char_of (leftchar * 64 + v)))
                  (a2b_base64 0 0 0 cs))))"

definition urlsafe_b64decode :: "string \<Rightarrow> error + string" where
  "urlsafe_b64decode s =
     (if \<exists>c \<in> set s. 128 \<le> code c then Inl ValueError else a2b_base64 0 0 0 s)"

text \<open>
  \<open>bytes.decode("utf-8", errors=...)\<close>. \<open>utf8_step\<close> looks at the bytes at one
  position and says whether a well-formed sequence starts there and how many bytes it,
  or the ill-formed run, takes: one byte for a bad start byte, the bytes before the
  first bad continuation byte otherwise, and all that is left when the data ends inside
  a sequence. With \<open>errors="replace"\<close> an ill-formed run becomes U+FFFD (the bytes
  EF BF BD), with \<open>errors="ignore"\<close> it is dropped.
\<close>

fun utf8_step :: "string \<Rightarrow> bool \<times> nat" where
  "utf8_step [] = (False, 0)"
| "utf8_step (b0 # bs) =
     (let n0 = code b0 in
      if n0 < 128 then (True, 1)
      else if n0 < 194 then (False, 1)
      else if n0 < 224 then
        (case bs of
           [] \<Rightarrow> (False, 1)
         | b1 # _ \<Rightarrow> if is_cont b1 then (True, 2) else (False, 1))
      else if n0 < 240 then
        (case bs of
           [] \<Rightarrow> (False, 1)
         | b1 # bs1 \<Rightarrow>
             if \<not> is_cont b1 \<or> (n0 = 224 \<and> code b1 < 160) \<or> (n0 = 237 \<and> 160 \<le> code b1)
             then (False, 1)
             else (case bs1 of
                     [] \<Rightarrow> (False, 2)
                   | b2 # _ \<Rightarrow> if is_cont b2 then (True, 3) else (False, 2)))
      else if n0 < 245 then
        (case bs of
           [] \<Rightarrow> (False, 1)
         | b1 # bs1 \<Rightarrow>
             if \<not> is_cont b1 \<or> (n0 = 240 \<and> code b1 < 144) \<or> (n0 = 244 \<and> 144 \<le> code b1)
             then (False, 1)
             else (case bs1 of
                     [] \<Rightarrow> (False, 2)
                   | b2 # bs2 \<Rightarrow>
                       if \<not> is_cont b2 then (False, 2)
                       else (case bs2 of
                               [] \<Rightarrow> (False, 3)
                             | b3 # _ \<Rightarrow> if is_cont b3 then (True, 4) else (False, 3))))
      else (False, 1))"

fun utf8_aux :: "bool \<Rightarrow> nat \<Rightarrow> string \<Rightarrow> string" where
  "utf8_aux rep skip [] = []"
| "utf8_aux rep skip (b # bs) =
     (if 0 < skip then utf8_aux rep (skip - 1) bs
      else (case utf8_step (b # bs) of
              (True, n) \<Rightarrow> take n (b # bs) @ utf8_aux rep (n - 1) bs
            | (False, n) \<Rightarrow>
                (if rep then [CHR 0xEF, CHR 0xBF, CHR 0xBD] else []) @ utf8_aux rep (n - 1) bs))"

definition decode_utf8_replace :: "string \<Rightarrow> string" where
  "decode_utf8_replace bs = utf8_aux True 0 bs"

definition decode_utf8_ignore :: "string \<Rightarrow> string" where
  "decode_utf8_ignore bs = utf8_aux False 0 bs"

section \<open>The message resource\<close>

text \<open>
  The message of the provider (format \<open>full\<close>) is a dictionary; a key that may be
  missing is an \<open>option\<close>. A part of the payload tree has a MIME type, a file name, a
  part id, a body with inline data and a size, and sub-parts; the payload is a part
  with the header list.
\<close>

datatype header = Header (name: "string option") (value_h: "string option")

datatype body = Body (data: "string option") (size_b: "int option")

datatype part =
  Part (headers: "header list option") (mimeType: "string option")
       (filename: "string option") (partId: "string option")
       (body: "body option") (parts: "part list option")

datatype message =
  Message (id_m: "string option") (threadId: "string option")
          (labelIds: "string list option") (snippet: "string option")
          (internalDate: "string option") (payload: "part option")

section \<open>MIME Body Walker\<close>

text \<open>\<open>part.get("body", {}).get("data")\<close>, read as a condition: data that is not empty.\<close>

definition body_data :: "part \<Rightarrow> string option" where
  "body_data p =
     (case body p of
        None \<Rightarrow> None
      | Some b \<Rightarrow> (case data b of None \<Rightarrow> None | Some d \<Rightarrow> if d = [] then None else Some d))"

definition decode_body :: "string \<Rightarrow> error + string" where
  "decode_body d = map_sum id decode_utf8_replace (urlsafe_b64decode d)"

fun get_body_part :: "part list \<Rightarrow> string \<Rightarrow> error + string option" where
  "get_body_part [] mime_type = Inr None"
| "get_body_part (Part hs mt fn pid b sub # ps) mime_type =
     (case (if mt = Some mime_type then body_data (Part hs mt fn pid b sub) else None) of
        Some d \<Rightarrow> map_sum id Some (decode_body d)
      | None \<Rightarrow>
          (case sub of
             None \<Rightarrow> get_body_part ps mime_type
           | Some children \<Rightarrow>
               (case get_body_part children mime_type of
                  Inl e \<Rightarrow> Inl e
                | Inr None \<Rightarrow> get_body_part ps mime_type
                | Inr (Some t) \<Rightarrow> if t \<noteq> [] then Inr (Some t) else get_body_part ps mime_type)))"

section \<open>Header Extractor\<close>

text \<open>
  \<open>get_header\<close>: the value of the first header whose name is the wanted one, case
  ignored. The generator reads \<open>h["name"]\<close> of every header up to that one and
  \<open>h["value"]\<close> of that one, so a missing key raises there.
\<close>

fun get_header :: "header list \<Rightarrow> string \<Rightarrow> error + string option" where
  "get_header [] n = Inr None"
| "get_header (h # hs) n =
     (case name h of
        None \<Rightarrow> Inl KeyError
      | Some hn \<Rightarrow>
          if lower hn = lower n then
            (case value_h h of None \<Rightarrow> Inl KeyError | Some v \<Rightarrow> Inr (Some v))
          else get_header hs n)"

section \<open>Dates\<close>

text \<open>
  A \<open>datetime\<close> with its fields; \<open>utcoffset\<close> is the offset of its time zone in
  microseconds, absent for a naive value.
\<close>

datatype datetime =
  Datetime (year: int) (month: int) (day: int) (hour: int) (minute: int) (second: int)
           (microsecond: int) (utcoffset: "int option")

definition is_leap :: "int \<Rightarrow> bool" where
  "is_leap y = (y mod 4 = 0 \<and> (y mod 100 \<noteq> 0 \<or> y mod 400 = 0))"

definition days_in_month :: "int \<Rightarrow> int \<Rightarrow> int" where
  "days_in_month y m =
     (if m = 2 then (if is_leap y then 29 else 28)
      else if m = 4 \<or> m = 6 \<or> m = 9 \<or> m = 11 then 30 else 31)"

text \<open>The checks of the \<open>datetime\<close> and \<open>timezone\<close> constructors (ValueError otherwise).\<close>

definition valid_datetime :: "datetime \<Rightarrow> bool" where
  "valid_datetime d =
     (1 \<le> year d \<and> year d \<le> 9999 \<and> 1 \<le> month d \<and> month d \<le> 12
      \<and> 1 \<le> day d \<and> day d \<le> days_in_month (year d) (month d)
      \<and> 0 \<le> hour d \<and> hour d \<le> 23 \<and> 0 \<le> minute d \<and> minute d \<le> 59
      \<and> 0 \<le> second d \<and> second d \<le> 59 \<and> 0 \<le> microsecond d \<and> microsecond d < 1000000
      \<and> (case utcoffset d of
            None \<Rightarrow> True
          | Some off \<Rightarrow> - 86400000000 < off \<and> off < 86400000000))"

fun digits_val :: "int \<Rightarrow> string \<Rightarrow> int option" where
  "digits_val acc [] = Some acc"
| "digits_val acc (c # cs) =
     (if is_digit c then digits_val (acc * 10 + (int (code c) - 48)) cs else None)"

text \<open>\<open>int(s)\<close> of a text of ASCII digits, ValueError (\<open>None\<close>) otherwise.\<close>

definition int_digits :: "string \<Rightarrow> int option" where
  "int_digits s = (if s = [] then None else digits_val 0 s)"

text \<open>
  \<open>datetime.strptime(s, '%a, %d %b %Y %H:%M:%S %z')\<close>. The library turns the format
  into the regular expression below (names of the C locale, letters matched without
  regard to case), matches it at the start of the text and wants all of the text
  matched; the fields are then read from the groups and checked by the constructors.
  Every failure is a ValueError, here \<open>None\<close>. In the pattern \<open>\d\<close> is any decimal
  digit of Unicode and a blank of the format any run of Unicode whitespace; the
  classes written with brackets are ASCII. The names are ASCII here: a letter that
  Unicode equates with one of theirs when case is ignored (the long s, the dotless
  i) can match as well, but then the name is not found in the list of names, which is
  a ValueError like the failed match.
\<close>

definition ci :: "string \<Rightarrow> regex" where
  "ci s = foldr (\<lambda>c r. Seq (OneOf [C (lower_char c), C (upper_char c)]) r) s Eps"

fun alts :: "regex list \<Rightarrow> regex" where
  "alts [] = OneOf []"
| "alts [r] = r"
| "alts (r # rs) = Alt r (alts rs)"

definition digit :: regex where
  "digit = UDigit"

definition drange :: "char \<Rightarrow> char \<Rightarrow> regex" where
  "drange a b = OneOf [Range a b]"

definition spaces1 :: regex where
  "spaces1 = Plus USpace"

definition weekday_names :: "string list" where
  "weekday_names = [''mon'', ''tue'', ''wed'', ''thu'', ''fri'', ''sat'', ''sun'']"

definition month_names :: "string list" where
  "month_names = [''jan'', ''feb'', ''mar'', ''apr'', ''may'', ''jun'',
                  ''jul'', ''aug'', ''sep'', ''oct'', ''nov'', ''dec'']"

definition re_d :: regex where
  "re_d = alts [Seq (Lit (CHR ''3'')) (drange (CHR ''0'') (CHR ''1'')),
                Seq (drange (CHR ''1'') (CHR ''2'')) digit,
                Seq (Lit (CHR ''0'')) (drange (CHR ''1'') (CHR ''9'')),
                drange (CHR ''1'') (CHR ''9''),
                Seq (Lit (CHR '' '')) (drange (CHR ''1'') (CHR ''9''))]"

definition re_H :: regex where
  "re_H = alts [Seq (Lit (CHR ''2'')) (drange (CHR ''0'') (CHR ''3'')),
                Seq (drange (CHR ''0'') (CHR ''1'')) digit,
                digit]"

definition re_M :: regex where
  "re_M = alts [Seq (drange (CHR ''0'') (CHR ''5'')) digit, digit]"

definition re_S :: regex where
  "re_S = alts [Seq (Lit (CHR ''6'')) (drange (CHR ''0'') (CHR ''1'')),
                Seq (drange (CHR ''0'') (CHR ''5'')) digit,
                digit]"

definition re_frac :: regex where
  "re_frac =
     Seq (Lit (CHR ''.''))
       (Seq digit (Opt (Seq digit (Opt (Seq digit (Opt (Seq digit (Opt (Seq digit
          (Opt digit))))))))))"

definition re_z :: regex where
  "re_z =
     Alt (Seq (OneOf [C (CHR ''+''), C (CHR ''-'')])
            (Seq digit (Seq digit (Seq (Opt (Lit (CHR '':'')))
               (Seq (drange (CHR ''0'') (CHR ''5'')) (Seq digit
                  (Opt (Seq (Opt (Lit (CHR '':'')))
                          (Seq (drange (CHR ''0'') (CHR ''5''))
                             (Seq digit (Opt re_frac)))))))))))
         (Lit (CHR ''Z''))"

definition strptime_regex :: regex where
  "strptime_regex =
     Seq (Group 1 (alts (map ci weekday_names)))
    (Seq (Lit (CHR '','')) (Seq spaces1
    (Seq (Group 2 re_d) (Seq spaces1
    (Seq (Group 3 (alts (map ci month_names))) (Seq spaces1
    (Seq (Group 4 (Seq digit (Seq digit (Seq digit digit)))) (Seq spaces1
    (Seq (Group 5 re_H) (Seq (Lit (CHR '':''))
    (Seq (Group 6 re_M) (Seq (Lit (CHR '':''))
    (Seq (Group 7 re_S) (Seq spaces1
         (Group 8 re_z)))))))))))))))"

fun index_of :: "'a list \<Rightarrow> 'a \<Rightarrow> nat" where
  "index_of [] x = 0"
| "index_of (y # ys) x = (if x = y then 0 else Suc (index_of ys x))"

text \<open>
  The offset of \<open>%z\<close> in microseconds: \<open>Z\<close>, or sign, hours, minutes and optional
  seconds and fraction; a colon after the hours asks for one before the seconds.
\<close>

definition z_offset :: "string \<Rightarrow> int option" where
  "z_offset z0 =
     (if z0 = ''Z'' then Some 0
      else
        (let colon = (take 1 (drop 3 z0) = '':'');
             z1 = (if colon then take 3 z0 @ drop 4 z0 else z0);
             bad = (colon \<and> 5 < length z1 \<and> take 1 (drop 5 z1) \<noteq> '':'');
             z = (if colon \<and> 5 < length z1 then take 5 z1 @ drop 6 z1 else z1);
             sec = take 2 (drop 5 z);
             frac = drop 8 z
         in if bad then None
            else
              (case (int_digits (take 2 (drop 1 z)), int_digits (take 2 (drop 3 z)),
                     if sec = [] then Some 0 else int_digits sec,
                     int_digits (frac @ replicate (6 - length frac) (CHR ''0''))) of
                 (Some h, Some m, Some s, Some f) \<Rightarrow>
                   (let us = (h * 3600 + m * 60 + s) * 1000000 + f
                    in Some (if take 1 z = ''-'' then - us else us))
               | _ \<Rightarrow> None)))"

text \<open>
  The text of a group with each of its digits as the ASCII digit of the same value:
  a group of the pattern holds digits, a sign, colons, a point or a blank and nothing
  else, \<open>int\<close> reads a digit by its value, and the offset is taken apart by the
  positions of its characters.
\<close>

definition digits_text :: "mstate \<Rightarrow> nat \<Rightarrow> string" where
  "digits_text m i = decimal_and_space_to_ascii (group_text m i)"

definition strptime_rfc :: "string \<Rightarrow> datetime option" where
  "strptime_rfc s =
     (case matches strptime_regex (MState None s []) of
        [] \<Rightarrow> None
      | m # _ \<Rightarrow>
          if rest m \<noteq> [] then None
          else
            (case (int_digits (c_strip (digits_text m 2)), int_digits (digits_text m 4),
                   int_digits (digits_text m 5), int_digits (digits_text m 6),
                   int_digits (digits_text m 7), z_offset (digits_text m 8)) of
               (Some d, Some y, Some h, Some mi, Some sec, Some off) \<Rightarrow>
                 (let dt = Datetime y (1 + int (index_of month_names (lower (group_text m 3))))
                             d h mi sec 0 (Some off)
                  in if valid_datetime dt then Some dt else None)
             | _ \<Rightarrow> None))"

subsection \<open>The ISO parser of the library\<close>

text \<open>
  \<open>datetime.fromisoformat\<close> as Python 3.11 implements it, on the bytes of the UTF-8
  text. \<open>byte_at\<close> reads a byte; behind the end of the text stands the byte 0.
\<close>

definition byte_at :: "string \<Rightarrow> nat \<Rightarrow> int" where
  "byte_at s i = (if i < length s then int (code (s ! i)) else 0)"

text \<open>The value of \<open>n\<close> ASCII digits from position \<open>p\<close>.\<close>

definition parse_digits :: "string \<Rightarrow> nat \<Rightarrow> nat \<Rightarrow> int option" where
  "parse_digits s p n =
     (let t = take n (drop p s)
      in if length t = n \<and> list_all is_digit t then digits_val 0 t else None)"

text \<open>
  Where the date ends: after \<open>YYYY-MM-DD\<close> (10), \<open>YYYYMMDD\<close> (8), or a week date
  \<open>YYYY-Www\<close> (8), \<open>YYYY-Www-D\<close> (10), \<open>YYYYWww\<close> (7), \<open>YYYYWwwD\<close> (8); a text of 7
  bytes is all date.
\<close>

definition find_isoformat_datetime_separator :: "string \<Rightarrow> nat option" where
  "find_isoformat_datetime_separator s =
     (let n = length s
      in if n = 7 then Some 7
         else if byte_at s 4 = 45 then
           (if byte_at s 5 = 87 then
              (if n < 8 then None
               else if 8 < n \<and> byte_at s 8 = 45 then
                 (if n = 9 then None
                  else if 10 < n \<and> 48 \<le> byte_at s 10 \<and> byte_at s 10 \<le> 57 then Some 8
                  else Some 10)
               else Some 8)
            else Some 10)
         else if byte_at s 4 = 87 then
           (let idx = 7 + length (takeWhile is_digit (drop 7 s))
            in if idx < 9 then Some idx else if even idx then Some 7 else Some 8)
         else Some 8)"

text \<open>Days before the first of January of a year, and the day number of a date.\<close>

definition days_before_year :: "int \<Rightarrow> int" where
  "days_before_year y = (y - 1) * 365 + (y - 1) div 4 - (y - 1) div 100 + (y - 1) div 400"

definition days_before_month :: "int \<Rightarrow> int \<Rightarrow> int" where
  "days_before_month y m = sum_list (map (days_in_month y) [1 .. m - 1])"

definition ymd_to_ord :: "int \<Rightarrow> int \<Rightarrow> int \<Rightarrow> int" where
  "ymd_to_ord y m d = days_before_year y + days_before_month y m + d"

text \<open>The date of a day number.\<close>

definition year_of_ord :: "int \<Rightarrow> int" where
  "year_of_ord n =
     (let y = (400 * (n - 1)) div 146097 + 1
      in if days_before_year (y + 1) < n then y + 1
         else if n \<le> days_before_year y then y - 1
         else y)"

definition month_day :: "int \<Rightarrow> int \<Rightarrow> int \<times> int" where
  "month_day y r =
     foldl (\<lambda>(m, r) k. if m = k \<and> days_in_month y k < r then (k + 1, r - days_in_month y k)
                         else (m, r))
       (1, r) [1, 2, 3, 4, 5, 6, 7, 8, 9, 10, 11]"

definition ord_to_ymd :: "int \<Rightarrow> int \<times> int \<times> int" where
  "ord_to_ymd n = (let y = year_of_ord n in (y, month_day y (n - days_before_year y)))"

text \<open>
  The date of a day of an ISO week. The week 53 exists in the years that start on a
  Thursday and in the leap years that start on a Wednesday.
\<close>

definition weekday :: "int \<Rightarrow> int \<Rightarrow> int \<Rightarrow> int" where
  "weekday y m d = (ymd_to_ord y m d + 6) mod 7"

definition iso_week1_monday :: "int \<Rightarrow> int" where
  "iso_week1_monday y =
     (let first_day = ymd_to_ord y 1 1;
          first_weekday = (first_day + 6) mod 7;
          week1_monday = first_day - first_weekday
      in if 3 < first_weekday then week1_monday + 7 else week1_monday)"

definition iso_to_ymd :: "int \<Rightarrow> int \<Rightarrow> int \<Rightarrow> (int \<times> int \<times> int) option" where
  "iso_to_ymd y w d =
     (if y < 1 \<or> 9999 < y then None
      else if (w \<le> 0 \<or> 53 \<le> w)
              \<and> \<not> (w = 53 \<and> (weekday y 1 1 = 3 \<or> (weekday y 1 1 = 2 \<and> is_leap y)))
      then None
      else if d \<le> 0 \<or> 8 \<le> d then None
      else Some (ord_to_ymd (iso_week1_monday y + (w - 1) * 7 + d - 1)))"

text \<open>
  The date in front of position \<open>sep\<close> (\<open>None\<close>: the separator was not found): year,
  then a week date or month and day; a dash after the year asks for one before the
  day.
\<close>

definition parse_isoformat_date :: "string \<Rightarrow> nat option \<Rightarrow> (int \<times> int \<times> int) option" where
  "parse_isoformat_date s sep =
     (case parse_digits s 0 4 of
        None \<Rightarrow> None
      | Some y \<Rightarrow>
          (let uses_separator = (byte_at s 4 = 45);
               p = (if uses_separator then 5 else 4)
           in if byte_at s p = 87 then
                (case parse_digits s (p + 1) 2 of
                   None \<Rightarrow> None
                 | Some w \<Rightarrow>
                     if (case sep of None \<Rightarrow> True | Some n \<Rightarrow> p + 3 < n) then
                       (if uses_separator \<and> byte_at s (p + 3) \<noteq> 45 then None
                        else (case parse_digits s (if uses_separator then p + 4 else p + 3) 1 of
                                None \<Rightarrow> None
                              | Some d \<Rightarrow> iso_to_ymd y w d))
                     else iso_to_ymd y w 1)
              else
                (case parse_digits s p 2 of
                   None \<Rightarrow> None
                 | Some m \<Rightarrow>
                     if uses_separator \<and> byte_at s (p + 2) \<noteq> 45 then None
                     else (case parse_digits s (if uses_separator then p + 3 else p + 2) 2 of
                             None \<Rightarrow> None
                           | Some d \<Rightarrow> Some (y, m, d)))))"

text \<open>
  The fraction of a second from position \<open>p\<close>: up to six digits are read, further
  digits are passed over. The result holds the fields read so far, the microseconds,
  and whether the text goes on behind what was read.
\<close>

definition parse_fraction ::
  "string \<Rightarrow> nat \<Rightarrow> nat \<Rightarrow> int list \<Rightarrow> (int list \<times> int \<times> bool) option" where
  "parse_fraction s p_end p vals =
     (let to_parse = min (p_end - p) 6
      in case parse_digits s p to_parse of
           None \<Rightarrow> None
         | Some f \<Rightarrow>
             (let q = p + to_parse + length (takeWhile is_digit (drop (p + to_parse) s))
              in Some (vals, f * 10 ^ (6 - to_parse), byte_at s q \<noteq> 0)))"

text \<open>
  \<open>HH[:MM[:SS[.ffffff]]]\<close> between \<open>p\<close> and \<open>p_end\<close>: \<open>k\<close> fields of two digits are
  still to be read, \<open>vals\<close> are the fields read. The character after the hours says
  whether colons separate the fields.
\<close>

fun parse_hh_mm_ss_ff ::
  "string \<Rightarrow> nat \<Rightarrow> nat \<Rightarrow> bool \<Rightarrow> nat \<Rightarrow> int list \<Rightarrow> (int list \<times> int \<times> bool) option" where
  "parse_hh_mm_ss_ff s p_end 0 has_separator p vals = parse_fraction s p_end p vals"
| "parse_hh_mm_ss_ff s p_end (Suc k) has_separator p vals =
     (case parse_digits s p 2 of
        None \<Rightarrow> None
      | Some v \<Rightarrow>
          (let c = byte_at s (p + 2);
               has_sep = (if vals = [] then c = 58 else has_separator)
           in if p_end \<le> p + 3 then Some (vals @ [v], 0, c \<noteq> 0)
              else if has_sep \<and> c = 58 then parse_hh_mm_ss_ff s p_end k has_sep (p + 3) (vals @ [v])
              else if c = 46 \<or> c = 44 then parse_fraction s p_end (p + 3) (vals @ [v])
              else if \<not> has_sep then parse_hh_mm_ss_ff s p_end k has_sep (p + 2) (vals @ [v])
              else None))"

text \<open>A field of the time; a field that was not read is zero.\<close>

definition time_field :: "int list \<Rightarrow> nat \<Rightarrow> int" where
  "time_field vals i = (if i < length vals then vals ! i else 0)"

definition is_tz_start :: "char \<Rightarrow> bool" where
  "is_tz_start c = (c = CHR ''Z'' \<or> c = CHR ''+'' \<or> c = CHR ''-'')"

text \<open>
  The time from position \<open>start\<close>: the fields up to the first \<open>Z\<close>, \<open>+\<close> or \<open>-\<close>, then
  the offset, in seconds and microseconds.
\<close>

definition parse_isoformat_time ::
  "string \<Rightarrow> nat \<Rightarrow> (int list \<times> int \<times> (int \<times> int) option) option" where
  "parse_isoformat_time s start =
     (let n = length s;
          tz = (if start < n \<and> is_tz_start (s ! start) then start
                else start + 1 + length (takeWhile (\<lambda>c. \<not> is_tz_start c) (drop (start + 1) s)))
      in case parse_hh_mm_ss_ff s tz 3 True start [] of
           None \<Rightarrow> None
         | Some (vals, us, more) \<Rightarrow>
             if tz = n then (if more then None else Some (vals, us, None))
             else if byte_at s tz = 90 then
               (if byte_at s (tz + 1) \<noteq> 0 then None else Some (vals, us, Some (0, 0)))
             else
               (case parse_hh_mm_ss_ff s n 3 True (tz + 1) [] of
                  None \<Rightarrow> None
                | Some (tv, tus, more2) \<Rightarrow>
                    if more2 then None
                    else (let sign = (if byte_at s tz = 45 then - 1 else 1);
                              secs = time_field tv 0 * 3600 + time_field tv 1 * 60
                                     + time_field tv 2
                          in Some (vals, us, Some (sign * secs, sign * tus)))))"

text \<open>The position behind the character that separates date and time.\<close>

definition skip_separator :: "string \<Rightarrow> nat \<Rightarrow> nat" where
  "skip_separator s p =
     (let b = byte_at s p
      in if b < 128 then p + 1
         else if 224 \<le> b \<and> b < 240 then p + 3
         else if 240 \<le> b then p + 4
         else p + 2)"

text \<open>
  \<open>datetime.fromisoformat\<close>; \<open>None\<close> is its ValueError. An offset of zero seconds is
  UTC, whatever its microseconds.
\<close>

definition fromisoformat :: "string \<Rightarrow> datetime option" where
  "fromisoformat s =
     (if length s < 7 then None
      else
        (let sep = find_isoformat_datetime_separator s
         in case parse_isoformat_date s sep of
              None \<Rightarrow> None
            | Some (y, m, d) \<Rightarrow>
                (case (case sep of
                         None \<Rightarrow> Some ([], 0, None)
                       | Some n \<Rightarrow> if n < length s
                                   then parse_isoformat_time s (skip_separator s n)
                                   else Some ([], 0, None)) of
                   None \<Rightarrow> None
                 | Some (vals, us, tz) \<Rightarrow>
                     (let off = (case tz of
                                   None \<Rightarrow> None
                                 | Some (secs, tus) \<Rightarrow>
                                     Some (if secs = 0 then 0 else secs * 1000000 + tus));
                          dt = Datetime y m d (time_field vals 0) (time_field vals 1)
                                 (time_field vals 2) us off
                      in if valid_datetime dt then Some dt else None))))"

subsection \<open>The Date Normalizer\<close>

text \<open>
  The ISO parser gets the header with \<open> (UTC)\<close> and \<open> (GMT)\<close> turned into \<open>+00:00\<close>
  and every \<open>T\<close> into a space. When it fails, \<open>strptime\<close> gets the header as it came.
  Both raise nothing but a ValueError, which is caught.
\<close>

definition iso_text :: "string \<Rightarrow> string" where
  "iso_text s = replace (replace (replace s '' (UTC)'' ''+00:00'') '' (GMT)'' ''+00:00'') ''T'' '' ''"

definition parse_date :: "string option \<Rightarrow> datetime option" where
  "parse_date sent_timestamp_str =
     (case sent_timestamp_str of
        None \<Rightarrow> None
      | Some s \<Rightarrow>
          if s = [] then None
          else (case fromisoformat (iso_text s) of
                  Some d \<Rightarrow> Some d
                | None \<Rightarrow> strptime_rfc s))"

section \<open>Python values\<close>

text \<open>
  The values a record of the program holds. A dictionary keeps its keys in the order of
  insertion. A JSON document is given by the value it encodes.
\<close>

datatype pyval =
    PNone
  | PInt int
  | PStr string
  | PDatetime datetime
  | PList "pyval list"
  | PTuple "pyval list"
  | PDict "(string \<times> pyval) list"

definition popt :: "string option \<Rightarrow> pyval" where
  "popt v = (case v of None \<Rightarrow> PNone | Some s \<Rightarrow> PStr s)"


definition bind_e :: "error + 'a \<Rightarrow> ('a \<Rightarrow> error + 'b) \<Rightarrow> error + 'b" where
  "bind_e r f = (case r of Inl e \<Rightarrow> Inl e | Inr v \<Rightarrow> f v)"

text \<open>
  \<open>int(s)\<close> of a text: the digits of Unicode count by their values, whitespace
  around the number is dropped, a sign may lead, and the digits may be grouped by
  single underscores.
\<close>

fun digits_us :: "int \<Rightarrow> bool \<Rightarrow> string \<Rightarrow> int option" where
  "digits_us acc after_digit [] = (if after_digit then Some acc else None)"
| "digits_us acc after_digit (c # cs) =
     (if is_digit c then digits_us (acc * 10 + (int (code c) - 48)) True cs
      else if c = CHR ''_'' \<and> after_digit \<and> (case cs of [] \<Rightarrow> False | d # _ \<Rightarrow> is_digit d)
      then digits_us acc False cs
      else None)"

definition py_int :: "string \<Rightarrow> error + int" where
  "py_int s =
     (let t = c_strip (decimal_and_space_to_ascii s);
          neg = (take 1 t = ''-'');
          ds = (if take 1 t = ''-'' \<or> take 1 t = ''+'' then drop 1 t else t)
      in case digits_us 0 False ds of
           None \<Rightarrow> Inl ValueError
         | Some n \<Rightarrow> Inr (if neg then - n else n))"

section \<open>Authentication Result Parser\<close>

definition word1 :: regex where
  "word1 = Plus (OneOf [Word])"

definition domain1 :: regex where
  "domain1 = Plus (OneOf [Word, C (CHR ''.''), C (CHR ''-'')])"

definition spf_regex :: regex where
  "spf_regex =
     Seq (Lits ''spf='') (Seq (Group 1 word1) (Seq (OneOf [Space]) (Seq (Star Dot)
       (Seq (Lits ''header.from='') (Group 2 domain1)))))"

definition dkim_regex :: regex where
  "dkim_regex =
     Seq (Lits ''dkim='') (Seq (Group 1 word1) (Seq (OneOf [Space]) (Seq (Star Dot)
       (Seq (Lits ''header.d='') (Group 2 domain1)))))"

definition dmarc_regex :: regex where
  "dmarc_regex = Seq (Lits ''dmarc='') (Group 1 word1)"

definition parse_auth_results :: "string option \<Rightarrow> pyval" where
  "parse_auth_results header_value =
     (case header_value of
        None \<Rightarrow> PNone
      | Some v \<Rightarrow>
          if v = [] then PNone
          else
            (let auth_results =
                   (case search spf_regex v of
                      None \<Rightarrow> []
                    | Some m \<Rightarrow> [(''spf_status'', PStr (group_text m 1)),
                                 (''spf_domain'', PStr (group_text m 2))])
                 @ (case search dkim_regex v of
                      None \<Rightarrow> []
                    | Some m \<Rightarrow> [(''dkim_status'', PStr (group_text m 1)),
                                 (''dkim_domain'', PStr (group_text m 2))])
                 @ (case search dmarc_regex v of
                      None \<Rightarrow> []
                    | Some m \<Rightarrow> [(''dmarc_status'', PStr (group_text m 1))])
             in if auth_results = [] then PNone else PDict auth_results))"

section \<open>Sender Identity Resolver\<close>

definition sender_regex :: regex where
  "sender_regex = Seq (Lit (CHR ''<'')) (Seq (Group 1 (Plus (NoneOf [C (CHR ''>'')]))) (Lit (CHR ''>'')))"

text \<open>The pair \<open>(sender_email, sender_name)\<close> of a \<open>From\<close> header.\<close>

definition parse_sender :: "string option \<Rightarrow> pyval \<times> pyval" where
  "parse_sender sender_header =
     (case sender_header of
        None \<Rightarrow> (PStr [], PNone)
      | Some h \<Rightarrow>
          if h = [] then (PStr [], PNone)
          else (case search sender_regex h of
                  Some m \<Rightarrow>
                    (PStr (group_text m 1),
                     PStr (filter (\<lambda>c. c \<noteq> CHR 0x22) (strip (split_first h (CHR ''<'')))))
                | None \<Rightarrow> (PStr (strip h), PNone)))"

section \<open>Email Normalizer\<close>

text \<open>\<open>message["id"]\<close>: a KeyError when the message has no id.\<close>

definition message_id_of :: "message \<Rightarrow> error + string" where
  "message_id_of m = (case id_m m of None \<Rightarrow> Inl KeyError | Some i \<Rightarrow> Inr i)"

definition part_size :: "part \<Rightarrow> int option" where
  "part_size p = (case body p of None \<Rightarrow> None | Some b \<Rightarrow> size_b b)"

definition attachment_entry :: "string \<Rightarrow> part \<Rightarrow> pyval" where
  "attachment_entry mid p =
     PDict [(''message_id'', PStr mid),
            (''filename'', popt (filename p)),
            (''mime_type'', popt (mimeType p)),
            (''attachment_size'', (case part_size p of None \<Rightarrow> PNone | Some n \<Rightarrow> PInt n))]"

definition additional_part_entry :: "part \<Rightarrow> pyval" where
  "additional_part_entry p =
     PDict [(''part_id'', popt (partId p)),
            (''mime_type'', popt (mimeType p)),
            (''filename'', popt (filename p)),
            (''size'', PInt (case part_size p of None \<Rightarrow> 0 | Some n \<Rightarrow> n))]"

definition is_text_type :: "part \<Rightarrow> bool" where
  "is_text_type p =
     (let mt = (case mimeType p of None \<Rightarrow> [] | Some t \<Rightarrow> t)
      in contains mt ''text/plain'' \<or> contains mt ''text/html'')"

text \<open>
  The loop over the direct children of the payload: a child with a file name is an
  attachment, any other child whose MIME type holds neither \<open>text/plain\<close> nor
  \<open>text/html\<close> is an additional part. The result is the pair of both lists.
\<close>

fun classify_parts :: "message \<Rightarrow> part list \<Rightarrow> error + pyval list \<times> pyval list" where
  "classify_parts m [] = Inr ([], [])"
| "classify_parts m (p # ps) =
     (if filename p \<noteq> None \<and> filename p \<noteq> Some [] then
        bind_e (message_id_of m) (\<lambda>mid.
        bind_e (classify_parts m ps) (\<lambda>(attachments, additional_parts).
        Inr (attachment_entry mid p # attachments, additional_parts)))
      else if \<not> is_text_type p then
        bind_e (classify_parts m ps) (\<lambda>(attachments, additional_parts).
        Inr (attachments, additional_part_entry p # additional_parts))
      else classify_parts m ps)"

text \<open>
  Bodies, attachments and additional parts of a payload: the walker and the loop when
  the payload has parts, the inline data of the payload itself otherwise.
\<close>

definition extract_parts ::
  "message \<Rightarrow> part \<Rightarrow> error + (pyval \<times> pyval \<times> pyval list \<times> pyval list)" where
  "extract_parts m pl =
     (case parts pl of
        Some ps \<Rightarrow>
          bind_e (get_body_part ps ''text/plain'') (\<lambda>body_text.
          bind_e (get_body_part ps ''text/html'') (\<lambda>body_html.
          bind_e (classify_parts m ps) (\<lambda>(attachments, additional_parts).
          Inr (popt body_text, popt body_html, attachments, additional_parts))))
      | None \<Rightarrow>
          (case body_data pl of
             None \<Rightarrow> Inr (PNone, PNone, [], [])
           | Some d \<Rightarrow>
               if mimeType pl = Some ''text/plain'' then
                 bind_e (decode_body d) (\<lambda>t. Inr (PStr t, PNone, [], []))
               else if mimeType pl = Some ''text/html'' then
                 bind_e (decode_body d) (\<lambda>t. Inr (PNone, PStr t, [], []))
               else Inr (PNone, PNone, [], [])))"

fun xheaders_of :: "message \<Rightarrow> header list \<Rightarrow> error + pyval list" where
  "xheaders_of m [] = Inr []"
| "xheaders_of m (h # hs) =
     (case name h of
        None \<Rightarrow> Inl KeyError
      | Some n \<Rightarrow>
          if startswith (lower n) ''x-'' then
            bind_e (message_id_of m) (\<lambda>mid.
            (case value_h h of
               None \<Rightarrow> Inl KeyError
             | Some v \<Rightarrow>
                 bind_e (xheaders_of m hs) (\<lambda>xs.
                 Inr (PDict [(''message_id'', PStr mid), (''header_name'', PStr n),
                             (''header_value'', PStr v)] # xs))))
          else xheaders_of m hs)"

definition labels_of :: "message \<Rightarrow> error + pyval list" where
  "labels_of m =
     (case labelIds m of
        None \<Rightarrow> Inr []
      | Some ls \<Rightarrow>
          if ls = [] then Inr []
          else bind_e (message_id_of m) (\<lambda>mid.
               Inr (map (\<lambda>l. PDict [(''message_id'', PStr mid), (''label_name'', PStr l)]) ls)))"

text \<open>\<open>int(message.get("internalDate", 0))\<close>.\<close>

definition internal_date_ms :: "message \<Rightarrow> error + int" where
  "internal_date_ms m = (case internalDate m of None \<Rightarrow> Inr 0 | Some s \<Rightarrow> py_int s)"

text \<open>The raw source: absent or empty gives \<open>None\<close>, otherwise it is decoded, bad bytes dropped.\<close>

definition decode_raw_source :: "string option \<Rightarrow> error + pyval" where
  "decode_raw_source raw_source =
     (case raw_source of
        None \<Rightarrow> Inr PNone
      | Some r \<Rightarrow>
          if r = [] then Inr PNone
          else bind_e (urlsafe_b64decode r) (\<lambda>bs. Inr (PStr (decode_utf8_ignore bs))))"

definition recipients_val :: "(string \<times> string) list \<Rightarrow> pyval" where
  "recipients_val rs = PList (map (\<lambda>(n, a). PTuple [PStr n, PStr a]) rs)"

definition empty_part :: part where
  "empty_part = Part None None None None None None"

definition extract_email_data :: "message \<Rightarrow> string option \<Rightarrow> error + pyval" where
  "extract_email_data message raw_source =
     (let pl = (case payload message of None \<Rightarrow> empty_part | Some p \<Rightarrow> p);
          hs = (case headers pl of None \<Rightarrow> [] | Some h \<Rightarrow> h)
      in
      bind_e (extract_parts message pl) (\<lambda>(body_text, body_html, attachments, additional_parts).
      bind_e (xheaders_of message hs) (\<lambda>xheaders.
      bind_e (labels_of message) (\<lambda>labels.
      bind_e (get_header hs ''Date'') (\<lambda>sent_timestamp_str.
      bind_e (get_header hs ''From'') (\<lambda>sender_header.
      bind_e (get_header hs ''Subject'') (\<lambda>subject.
      bind_e (internal_date_ms message) (\<lambda>internal_date.
      bind_e (get_header hs ''Received'') (\<lambda>date_received.
      bind_e (get_header hs ''Content-Transfer-Encoding'') (\<lambda>content_transfer_encoding.
      bind_e (get_header hs ''To'') (\<lambda>to_header.
      bind_e (get_header hs ''Cc'') (\<lambda>cc_header.
      bind_e (get_header hs ''Bcc'') (\<lambda>bcc_header.
      bind_e (decode_raw_source raw_source) (\<lambda>raw.
      bind_e (get_header hs ''Authentication-Results'') (\<lambda>auth_header.
      bind_e (get_header hs ''Return-Path'') (\<lambda>return_path.
      bind_e (get_header hs ''Sender'') (\<lambda>header_sender.
      Inr (PDict
        [(''message_id'', popt (id_m message)),
         (''thread_id'', popt (threadId message)),
         (''sender_email'', fst (parse_sender sender_header)),
         (''subject'', popt subject),
         (''body_text'', body_text),
         (''body_html'', body_html),
         (''sent_timestamp'',
            (case parse_date sent_timestamp_str of
               None \<Rightarrow> PNone | Some d \<Rightarrow> PDatetime d)),
         (''internal_date_ms'', PInt internal_date),
         (''date_received'', popt date_received),
         (''mime_type'', popt (mimeType pl)),
         (''content_transfer_encoding'', popt content_transfer_encoding),
         (''to_recipients'', recipients_val (parse_recipients to_header)),
         (''cc_recipients'', recipients_val (parse_recipients cc_header)),
         (''bcc_recipients'', recipients_val (parse_recipients bcc_header)),
         (''sender'', popt sender_header),
         (''sender_name'', snd (parse_sender sender_header)),
         (''snippet'', popt (snippet message)),
         (''raw_source'', raw),
         (''attachments'', PList attachments),
         (''xheaders'', PList xheaders),
         (''labels'', PList labels),
         (''authentication_results'', parse_auth_results auth_header),
         (''additional_parts'', PList additional_parts),
         (''return_path'', popt return_path),
         (''header_sender'', popt header_sender)]))))))))))))))))))"

section \<open>Text of a datetime, JSON documents\<close>

text \<open>
  \<open>str(d)\<close>, which is \<open>d.isoformat(' ')\<close>, for a valid datetime: date and time, the
  microseconds when there are any, and the offset as \<open>+HH:MM\<close> with seconds and
  microseconds when there are any.
\<close>

fun pad_dec :: "nat \<Rightarrow> int \<Rightarrow> string" where
  "pad_dec 0 n = []"
| "pad_dec (Suc w) n = pad_dec w (n div 10) @ [char_of (48 + nat (n mod 10))]"

definition format_offset :: "int option \<Rightarrow> string" where
  "format_offset off =
     (case off of
        None \<Rightarrow> []
      | Some v \<Rightarrow>
          (let a = abs v;
               hh = a div 3600000000;
               mm = (a mod 3600000000) div 60000000;
               ss = (a mod 60000000) div 1000000;
               us = a mod 1000000
           in (if v < 0 then ''-'' else ''+'') @ pad_dec 2 hh @ '':'' @ pad_dec 2 mm
              @ (if ss \<noteq> 0 \<or> us \<noteq> 0 then '':'' @ pad_dec 2 ss else [])
              @ (if us \<noteq> 0 then ''.'' @ pad_dec 6 us else [])))"

definition str_datetime :: "datetime \<Rightarrow> string" where
  "str_datetime d =
     pad_dec 4 (year d) @ ''-'' @ pad_dec 2 (month d) @ ''-'' @ pad_dec 2 (day d) @ '' ''
     @ pad_dec 2 (hour d) @ '':'' @ pad_dec 2 (minute d) @ '':'' @ pad_dec 2 (second d)
     @ (if microsecond d \<noteq> 0 then ''.'' @ pad_dec 6 (microsecond d) else [])
     @ format_offset (utcoffset d)"

text \<open>
  The value that \<open>json.load\<close> reads back from the document that \<open>json.dump\<close> writes
  for a value: a tuple comes back as a list. A datetime is no JSON value: \<open>dflt\<close> says
  what is written for it, its text with \<open>default=str\<close>, a TypeError without.
\<close>

fun json_value :: "(datetime \<Rightarrow> error + pyval) \<Rightarrow> pyval \<Rightarrow> error + pyval"
and json_values :: "(datetime \<Rightarrow> error + pyval) \<Rightarrow> pyval list \<Rightarrow> error + pyval list"
and json_items ::
  "(datetime \<Rightarrow> error + pyval) \<Rightarrow> (string \<times> pyval) list \<Rightarrow> error + (string \<times> pyval) list"
where
  "json_value dflt PNone = Inr PNone"
| "json_value dflt (PInt n) = Inr (PInt n)"
| "json_value dflt (PStr s) = Inr (PStr s)"
| "json_value dflt (PDatetime d) = dflt d"
| "json_value dflt (PList xs) = map_sum id PList (json_values dflt xs)"
| "json_value dflt (PTuple xs) = map_sum id PList (json_values dflt xs)"
| "json_value dflt (PDict kvs) = map_sum id PDict (json_items dflt kvs)"
| "json_values dflt [] = Inr []"
| "json_values dflt (x # xs) =
     (case json_value dflt x of
        Inl e \<Rightarrow> Inl e
      | Inr y \<Rightarrow> map_sum id ((#) y) (json_values dflt xs))"
| "json_items dflt [] = Inr []"
| "json_items dflt ((k, v) # kvs) =
     (case json_value dflt v of
        Inl e \<Rightarrow> Inl e
      | Inr y \<Rightarrow> map_sum id ((#) (k, y)) (json_items dflt kvs))"

definition default_str :: "datetime \<Rightarrow> error + pyval" where
  "default_str d = Inr (PStr (str_datetime d))"

definition no_default :: "datetime \<Rightarrow> error + pyval" where
  "no_default d = Inl TypeError"

text \<open>Truth of a value in a condition.\<close>

fun truthy :: "pyval \<Rightarrow> bool" where
  "truthy PNone = False"
| "truthy (PInt n) = (n \<noteq> 0)"
| "truthy (PStr s) = (s \<noteq> [])"
| "truthy (PDatetime d) = True"
| "truthy (PList xs) = (xs \<noteq> [])"
| "truthy (PTuple xs) = (xs \<noteq> [])"
| "truthy (PDict kvs) = (kvs \<noteq> [])"

section \<open>The interchange document\<close>

text \<open>
  The files of the interchange format: the file \<open>f"{message_id}.json"\<close> is named by
  the message id it was written for, and holds a document.
\<close>

type_synonym files = "pyval \<Rightarrow> pyval option"

definition py_get :: "(string \<times> pyval) list \<Rightarrow> string \<Rightarrow> pyval" where
  "py_get d k = (case map_of d k of None \<Rightarrow> PNone | Some v \<Rightarrow> v)"

definition py_get_or :: "(string \<times> pyval) list \<Rightarrow> string \<Rightarrow> pyval \<Rightarrow> pyval" where
  "py_get_or d k dflt = (case map_of d k of None \<Rightarrow> dflt | Some v \<Rightarrow> v)"

text \<open>
  \<open>save_extracted_email_as_json\<close>: nothing is written for a record without a message
  id; an error of the dump is caught and leaves the files as they were.
\<close>

definition save_extracted_email_as_json :: "files \<Rightarrow> (string \<times> pyval) list \<Rightarrow> files" where
  "save_extracted_email_as_json fs extracted_email =
     (let message_id = py_get extracted_email ''message_id''
      in if \<not> truthy message_id then fs
         else (case json_value default_str (PDict extracted_email) of
                 Inl e \<Rightarrow> fs
               | Inr doc \<Rightarrow> fs(message_id := Some doc)))"

text \<open>\<open>import_ExtractedEmailData\<close>: the value of the document, \<open>None\<close> without the file.\<close>

definition import_ExtractedEmailData :: "files \<Rightarrow> pyval \<Rightarrow> pyval option" where
  "import_ExtractedEmailData fs filepath = fs filepath"

section \<open>The store\<close>

text \<open>
  The tables that \<open>insert_message\<close> touches, as \<open>create_tables\<close> declares them, each a
  list of rows in the order of insertion and each row the list of its column values in
  the order of the declaration; the surrogate key that the engine numbers the rows of
  a child table with is left out. The first column is the key: \<open>email\<close> in
  \<open>email_address\<close>, \<open>message_id\<close> elsewhere. A column that holds the text of
  \<open>json.dumps\<close> holds the value of that document. Values are stored as they are bound.
\<close>

datatype sqlval = Null | SInt int | SText string | SJson pyval

type_synonym row = "sqlval list"

record db =
  email_address :: "row list"
  emails :: "row list"
  email_attachments :: "row list"
  email_xheaders :: "row list"
  email_labels :: "row list"
  email_routing_headers :: "row list"
  email_authentication :: "row list"

text \<open>
  The connection: the committed state and the state that the open transaction has
  reached. A statement works on the second; \<open>commit\<close> makes it the first and
  \<open>rollback\<close> goes back to the first.
\<close>

record conn =
  committed :: db
  pending :: db

definition commit :: "db \<Rightarrow> conn" where
  "commit d = \<lparr>committed = d, pending = d\<rparr>"

definition rollback :: "conn \<Rightarrow> conn" where
  "rollback c = c\<lparr>pending := committed c\<rparr>"

text \<open>Binding a Python value to a parameter of a statement.\<close>

fun bind_param :: "pyval \<Rightarrow> error + sqlval" where
  "bind_param PNone = Inr Null"
| "bind_param (PInt n) =
     (if - 9223372036854775808 \<le> n \<and> n < 9223372036854775808 then Inr (SInt n)
      else Inl OverflowError)"
| "bind_param (PStr s) = Inr (SText s)"
| "bind_param (PDatetime d) = Inr (SText (str_datetime d))"
| "bind_param (PList xs) = Inl InterfaceError"
| "bind_param (PTuple xs) = Inl InterfaceError"
| "bind_param (PDict kvs) = Inl InterfaceError"

fun bind_params :: "pyval list \<Rightarrow> error + sqlval list" where
  "bind_params [] = Inr []"
| "bind_params (v # vs) =
     (case bind_param v of
        Inl e \<Rightarrow> Inl e
      | Inr x \<Rightarrow> map_sum id ((#) x) (bind_params vs))"

definition key :: "row \<Rightarrow> sqlval" where
  "key r = (case r of [] \<Rightarrow> Null | k # _ \<Rightarrow> k)"

text \<open>A row with the key \<open>k\<close>; \<open>NULL\<close> equals nothing.\<close>

definition has_key :: "row list \<Rightarrow> sqlval \<Rightarrow> bool" where
  "has_key t k = (k \<noteq> Null \<and> k \<in> set (map key t))"

definition rows_of :: "row list \<Rightarrow> sqlval \<Rightarrow> row list" where
  "rows_of t k = (if k = Null then [] else filter (\<lambda>r. key r = k) t)"

definition delete_rows :: "sqlval \<Rightarrow> row list \<Rightarrow> row list" where
  "delete_rows k t = (if k = Null then t else filter (\<lambda>r. key r \<noteq> k) t)"

datatype child = Attachments | XHeaders | Labels | RoutingHeaders | Authentication

fun child_table :: "child \<Rightarrow> db \<Rightarrow> row list" where
  "child_table Attachments d = email_attachments d"
| "child_table XHeaders d = email_xheaders d"
| "child_table Labels d = email_labels d"
| "child_table RoutingHeaders d = email_routing_headers d"
| "child_table Authentication d = email_authentication d"

fun map_child :: "child \<Rightarrow> (row list \<Rightarrow> row list) \<Rightarrow> db \<Rightarrow> db" where
  "map_child Attachments f d = d\<lparr>email_attachments := f (email_attachments d)\<rparr>"
| "map_child XHeaders f d = d\<lparr>email_xheaders := f (email_xheaders d)\<rparr>"
| "map_child Labels f d = d\<lparr>email_labels := f (email_labels d)\<rparr>"
| "map_child RoutingHeaders f d = d\<lparr>email_routing_headers := f (email_routing_headers d)\<rparr>"
| "map_child Authentication f d = d\<lparr>email_authentication := f (email_authentication d)\<rparr>"

text \<open>\<open>INSERT OR IGNORE INTO email_address (email, display_name)\<close>; the other 23 columns are \<open>NULL\<close>.\<close>

definition insert_or_ignore_address :: "row \<Rightarrow> db \<Rightarrow> error + db" where
  "insert_or_ignore_address vs d =
     (if has_key (email_address d) (key vs) then Inr d
      else Inr (d\<lparr>email_address := email_address d @ [vs @ replicate 23 Null]\<rparr>))"

text \<open>
  \<open>ON DELETE CASCADE\<close>: with the row of a message its rows in the five child tables go.
\<close>

definition cascade_delete :: "sqlval \<Rightarrow> db \<Rightarrow> db" where
  "cascade_delete k d =
     d\<lparr>emails := delete_rows k (emails d),
       email_attachments := delete_rows k (email_attachments d),
       email_xheaders := delete_rows k (email_xheaders d),
       email_labels := delete_rows k (email_labels d),
       email_routing_headers := delete_rows k (email_routing_headers d),
       email_authentication := delete_rows k (email_authentication d)\<rparr>"

text \<open>
  \<open>INSERT OR REPLACE INTO emails\<close> with the 17 values of the statement; the five label
  flags take their default 0. Foreign keys are enforced (\<open>open_db\<close> turns them on): a
  \<open>sender_email\<close> that is not \<open>NULL\<close> has to be an \<open>email\<close> of \<open>email_address\<close>. A row
  with the same \<open>message_id\<close> is deleted first, and its child rows with it.
\<close>

definition insert_or_replace_email :: "row \<Rightarrow> db \<Rightarrow> error + db" where
  "insert_or_replace_email vs d =
     (case vs of
        mid # thread # sender # _ \<Rightarrow>
          if sender \<noteq> Null \<and> \<not> has_key (email_address d) sender then Inl IntegrityError
          else
            (let d1 = (if has_key (emails d) mid then cascade_delete mid d else d)
             in Inr (d1\<lparr>emails := emails d1 @ [vs @ replicate 5 (SInt 0)]\<rparr>))
      | _ \<Rightarrow> Inl InterfaceError)"

text \<open>\<open>DELETE FROM\<close> a child table \<open>WHERE message_id = ?\<close>.\<close>

definition delete_child :: "child \<Rightarrow> row \<Rightarrow> db \<Rightarrow> error + db" where
  "delete_child c vs d = Inr (map_child c (delete_rows (key vs)) d)"

text \<open>\<open>INSERT INTO\<close> a child table; its \<open>message_id\<close> refers to a row of \<open>emails\<close>.\<close>

definition insert_child :: "child \<Rightarrow> row \<Rightarrow> db \<Rightarrow> error + db" where
  "insert_child c vs d =
     (if key vs \<noteq> Null \<and> \<not> has_key (emails d) (key vs) then Inl IntegrityError
      else Inr (map_child c (\<lambda>t. t @ [vs]) d))"

text \<open>
  The run of statements inside a transaction: the number of statements executed so
  far in the call and the state reached, with the error that stopped the run, if any.
  A statement that fails leaves the state as it found it; what the statements before
  it wrote is still there.
\<close>

type_synonym tx = "nat \<times> db"

definition and_then ::
  "error option \<times> tx \<Rightarrow> (tx \<Rightarrow> error option \<times> tx) \<Rightarrow> error option \<times> tx" where
  "and_then r f = (case r of (None, t) \<Rightarrow> f t | (Some e, t) \<Rightarrow> (Some e, t))"

definition seq ::
  "(tx \<Rightarrow> error option \<times> tx) \<Rightarrow> (tx \<Rightarrow> error option \<times> tx) \<Rightarrow> tx \<Rightarrow> error option \<times> tx" where
  "seq f g t = and_then (f t) g"

text \<open>A value that Python computes between two statements; an error there stops the run.\<close>

definition with_value ::
  "error + 'a \<Rightarrow> ('a \<Rightarrow> tx \<Rightarrow> error option \<times> tx) \<Rightarrow> tx \<Rightarrow> error option \<times> tx" where
  "with_value r f t = (case r of Inl e \<Rightarrow> (Some e, t) | Inr v \<Rightarrow> f v t)"

text \<open>
  \<open>cursor.execute\<close>: the values are bound and the statement is run on the state the
  transaction has reached. \<open>fault n\<close> says that the engine fails on statement number
  \<open>n\<close> of the call (a full disk, a locked file), which raises an OperationalError.
\<close>

definition run_statement :: "(nat \<Rightarrow> bool) \<Rightarrow> (db \<Rightarrow> error + db) \<Rightarrow> tx \<Rightarrow> error option \<times> tx" where
  "run_statement fault stmt t =
     (if fault (fst t) then (Some OperationalError, t)
      else (case stmt (snd t) of
              Inl e \<Rightarrow> (Some e, t)
            | Inr d \<Rightarrow> (None, (Suc (fst t), d))))"

definition execute ::
  "(nat \<Rightarrow> bool) \<Rightarrow> (row \<Rightarrow> db \<Rightarrow> error + db) \<Rightarrow> pyval list \<Rightarrow> tx \<Rightarrow> error option \<times> tx" where
  "execute fault stmt params =
     with_value (bind_params params) (\<lambda>vs. run_statement fault (stmt vs))"

section \<open>Persistence Layer\<close>

text \<open>Whether a value can be a member of a set.\<close>

fun hashable :: "pyval \<Rightarrow> bool" where
  "hashable PNone = True"
| "hashable (PInt n) = True"
| "hashable (PStr s) = True"
| "hashable (PDatetime d) = True"
| "hashable (PList xs) = False"
| "hashable (PTuple xs) = list_all hashable xs"
| "hashable (PDict kvs) = False"

text \<open>
  One entry \<open>i\<close> of \<open>all_recipients\<close> in \<open>set(tuple(i) for i in ... if i and i[1])\<close>:
  \<open>None\<close> when the condition drops it, its tuple otherwise.
\<close>

fun seq_item :: "pyval list \<Rightarrow> error + pyval list option" where
  "seq_item [] = Inr None"
| "seq_item [x] = Inl IndexError"
| "seq_item (x # y # zs) =
     (if \<not> truthy y then Inr None
      else if list_all hashable (x # y # zs) then Inr (Some (x # y # zs))
      else Inl TypeError)"

fun recipient_item :: "pyval \<Rightarrow> error + pyval list option" where
  "recipient_item PNone = Inr None"
| "recipient_item (PInt n) = (if n = 0 then Inr None else Inl TypeError)"
| "recipient_item (PStr s) = seq_item (map (\<lambda>c. PStr [c]) s)"
| "recipient_item (PDatetime d) = Inl TypeError"
| "recipient_item (PList xs) = seq_item xs"
| "recipient_item (PTuple xs) = seq_item xs"
| "recipient_item (PDict kvs) = (if kvs = [] then Inr None else Inl KeyError)"

fun recipient_items :: "pyval list \<Rightarrow> error + pyval list list" where
  "recipient_items [] = Inr []"
| "recipient_items (i # is) =
     (case recipient_item i of
        Inl e \<Rightarrow> Inl e
      | Inr None \<Rightarrow> recipient_items is
      | Inr (Some t) \<Rightarrow> map_sum id ((#) t) (recipient_items is))"

text \<open>The operand of a list concatenation has to be a list.\<close>

definition as_list :: "pyval \<Rightarrow> error + pyval list" where
  "as_list v = (case v of PList xs \<Rightarrow> Inr xs | _ \<Rightarrow> Inl TypeError)"

definition all_recipients :: "(string \<times> pyval) list \<Rightarrow> error + pyval list" where
  "all_recipients email_data =
     bind_e (as_list (py_get_or email_data ''to_recipients'' (PList []))) (\<lambda>to.
     bind_e (as_list (py_get_or email_data ''cc_recipients'' (PList []))) (\<lambda>cc.
     bind_e (as_list (py_get_or email_data ''bcc_recipients'' (PList []))) (\<lambda>bcc.
     Inr (PTuple [py_get email_data ''sender_name'', py_get email_data ''sender_email'']
          # to @ cc @ bcc))))"

text \<open>The loop \<open>for name, email in ...\<close> over the set, one \<open>INSERT OR IGNORE\<close> each.\<close>

fun insert_addresses :: "(nat \<Rightarrow> bool) \<Rightarrow> pyval list list \<Rightarrow> tx \<Rightarrow> error option \<times> tx" where
  "insert_addresses fault [] t = (None, t)"
| "insert_addresses fault (tp # tps) t =
     (case tp of
        [name1, email] \<Rightarrow>
          and_then (execute fault insert_or_ignore_address [email, name1] t)
            (insert_addresses fault tps)
      | _ \<Rightarrow> (Some ValueError, t))"

text \<open>The values a \<open>for\<close> loop takes from a value.\<close>

fun iter_items :: "pyval \<Rightarrow> error + pyval list" where
  "iter_items (PList xs) = Inr xs"
| "iter_items (PTuple xs) = Inr xs"
| "iter_items (PStr s) = Inr (map (\<lambda>c. PStr [c]) s)"
| "iter_items (PDict kvs) = Inr (map (\<lambda>kv. PStr (fst kv)) kvs)"
| "iter_items PNone = Inl TypeError"
| "iter_items (PInt n) = Inl TypeError"
| "iter_items (PDatetime d) = Inl TypeError"

text \<open>
  The rows of one child collection: every entry is a dictionary (\<open>.get\<close> on anything
  else is an AttributeError) and gives the row of the message id and its values under
  \<open>keys\<close>.
\<close>

fun insert_children ::
  "(nat \<Rightarrow> bool) \<Rightarrow> child \<Rightarrow> pyval \<Rightarrow> string list \<Rightarrow> pyval list \<Rightarrow> tx \<Rightarrow> error option \<times> tx" where
  "insert_children fault c message_id keys [] t = (None, t)"
| "insert_children fault c message_id keys (e # es) t =
     (case e of
        PDict kvs \<Rightarrow>
          and_then (execute fault (insert_child c) (message_id # map (py_get kvs) keys) t)
            (insert_children fault c message_id keys es)
      | _ \<Rightarrow> (Some AttributeError, t))"

definition replace_children ::
  "(nat \<Rightarrow> bool) \<Rightarrow> child \<Rightarrow> pyval \<Rightarrow> string list \<Rightarrow> pyval \<Rightarrow> tx \<Rightarrow> error option \<times> tx" where
  "replace_children fault c message_id keys collection =
     seq (execute fault (delete_child c) [message_id])
       (with_value (iter_items collection) (insert_children fault c message_id keys))"

definition auth_keys :: "string list" where
  "auth_keys = [''spf_status'', ''spf_domain'', ''dkim_status'', ''dkim_domain'',
                ''dkim_selector'', ''dmarc_status'', ''dmarc_policy'']"

definition replace_authentication ::
  "(nat \<Rightarrow> bool) \<Rightarrow> pyval \<Rightarrow> pyval \<Rightarrow> tx \<Rightarrow> error option \<times> tx" where
  "replace_authentication fault message_id auth_data t =
     (if truthy auth_data then
        seq (execute fault (delete_child Authentication) [message_id])
          (insert_children fault Authentication message_id auth_keys [auth_data]) t
      else (None, t))"

text \<open>The values of the parent row, in the order of the columns.\<close>

definition email_model_data :: "(string \<times> pyval) list \<Rightarrow> pyval \<Rightarrow> error + pyval list" where
  "email_model_data email_data message_id =
     bind_e (json_value no_default (py_get_or email_data ''to_recipients'' (PList []))) (\<lambda>to.
     bind_e (json_value no_default (py_get_or email_data ''cc_recipients'' (PList []))) (\<lambda>cc.
     bind_e (json_value no_default (py_get_or email_data ''bcc_recipients'' (PList []))) (\<lambda>bcc.
     Inr ([message_id] @
          map (py_get email_data)
            [''thread_id'', ''sender_email'', ''subject'', ''body_text'', ''body_html'',
             ''sent_timestamp'', ''internal_date_ms'', ''date_received'', ''mime_type'',
             ''content_transfer_encoding'', ''charset'']
          @ [to, cc, bcc]
          @ map (py_get email_data) [''return_path'', ''header_sender'']))))"

text \<open>
  Binding the parent row: the three recipient columns are texts of \<open>json.dumps\<close>, the
  others are bound as they are.
\<close>

definition bind_email_row :: "pyval list \<Rightarrow> error + row" where
  "bind_email_row vs =
     bind_e (bind_params (take 12 vs)) (\<lambda>a.
     bind_e (bind_params (drop 15 vs)) (\<lambda>b.
     Inr (a @ map SJson (take 3 (drop 12 vs)) @ b)))"

definition execute_email :: "(nat \<Rightarrow> bool) \<Rightarrow> pyval list \<Rightarrow> tx \<Rightarrow> error option \<times> tx" where
  "execute_email fault params =
     with_value (bind_email_row params) (\<lambda>vs. run_statement fault (insert_or_replace_email vs))"

text \<open>
  The statements inside \<open>try\<close> up to the commit, from the state \<open>t\<close> of the
  transaction. \<open>order\<close> is the order in which the set of recipient tuples is gone
  through.
\<close>

definition insert_body ::
  "(nat \<Rightarrow> bool) \<Rightarrow> (pyval list list \<Rightarrow> pyval list list) \<Rightarrow> (string \<times> pyval) list \<Rightarrow> pyval
     \<Rightarrow> tx \<Rightarrow> error option \<times> tx" where
  "insert_body fault order email_data message_id =
     with_value (all_recipients email_data) (\<lambda>rs.
     with_value (recipient_items rs) (\<lambda>tuples.
     seq (insert_addresses fault (order (remdups tuples)))
    (with_value (email_model_data email_data message_id) (\<lambda>params.
     seq (execute_email fault params)
    (seq (replace_children fault Attachments message_id
            [''filename'', ''mime_type'', ''attachment_size'']
            (py_get_or email_data ''attachments'' (PList [])))
    (seq (replace_children fault XHeaders message_id
            [''header_name'', ''header_value'']
            (py_get_or email_data ''xheaders'' (PList [])))
    (seq (replace_children fault Labels message_id
            [''label_name'']
            (py_get_or email_data ''labels'' (PList [])))
    (seq (replace_children fault RoutingHeaders message_id
            [''header_name'', ''header_value'', ''hop_order'']
            (py_get_or email_data ''routing_headers'' (PList [])))
         (replace_authentication fault message_id
            (py_get email_data ''authentication_results''))))))))))"

text \<open>
  What a call of \<open>insert_message\<close> did: nothing without a connection, skipped an
  existing message, committed and reported, ran the \<open>except\<close> branch after an error
  inside \<open>try\<close>, or raised the error of the look-up before it.
\<close>

datatype outcome = NotOpen | Skipped | Inserted | Failed error | Raised error

text \<open>
  A \<open>print\<close>: the step with number \<open>n\<close> of the call. When the output fails there, an
  OSError leaves the call.
\<close>

definition report :: "(nat \<Rightarrow> bool) \<Rightarrow> nat \<Rightarrow> outcome \<Rightarrow> outcome" where
  "report fault n out = (if fault n then Raised OSError else out)"

text \<open>
  \<open>insert_message\<close>. The connection holds what the statements have written when one of
  them fails at step \<open>n'\<close>; the \<open>except\<close> branch rolls that back and prints. \<open>commit()\<close>
  is the step after the last statement. The report \<open>print(...)\<close> after the commit
  stands inside \<open>try\<close> as well: when it raises, the \<open>except\<close> branch runs after the
  commit.
\<close>

definition insert_message ::
  "(nat \<Rightarrow> bool) \<Rightarrow> (pyval list list \<Rightarrow> pyval list list) \<Rightarrow> conn option
     \<Rightarrow> (string \<times> pyval) list \<Rightarrow> bool \<Rightarrow> conn option \<times> outcome" where
  "insert_message fault order self_conn email_data update_if_exists =
     (case self_conn of
        None \<Rightarrow> (None, report fault 0 NotOpen)
      | Some c \<Rightarrow>
          (let message_id = py_get email_data ''message_id'';
               looked = (if update_if_exists then Inr (0, False)
                         else bind_e (bind_param message_id) (\<lambda>k.
                              if fault 0 then Inl OperationalError
                              else Inr (Suc 0, has_key (emails (pending c)) k)))
           in case looked of
                Inl e \<Rightarrow> (Some c, Raised e)
              | Inr (n, True) \<Rightarrow> (Some c, report fault n Skipped)
              | Inr (n, False) \<Rightarrow>
                  (case insert_body fault order email_data message_id (n, pending c) of
                     (Some e, (n', d)) \<Rightarrow>
                       (Some (rollback (c\<lparr>pending := d\<rparr>)), report fault (Suc n') (Failed e))
                   | (None, (n', d)) \<Rightarrow>
                       if fault n' then
                         (Some (rollback (c\<lparr>pending := d\<rparr>)),
                          report fault (Suc n') (Failed OperationalError))
                       else if fault (Suc n') then
                         (Some (rollback (commit d)),
                          report fault (Suc (Suc n')) (Failed OSError))
                       else (Some (commit d), Inserted))))"

definition empty_db :: db where
  "empty_db = \<lparr>email_address = [], emails = [], email_attachments = [], email_xheaders = [],
               email_labels = [], email_routing_headers = [], email_authentication = []\<rparr>"

definition no_fault :: "nat \<Rightarrow> bool" where
  "no_fault n = False"

definition fault_at :: "nat \<Rightarrow> nat \<Rightarrow> bool" where
  "fault_at k n = (n = k)"

section \<open>Example inputs\<close>

definition hdr :: "string \<Rightarrow> string \<Rightarrow> header" where
  "hdr n v = Header (Some n) (Some v)"

text \<open>A message that passed two relays.\<close>

definition message_two_hops :: message where
  "message_two_hops =
     Message (Some ''m1'') (Some ''t1'') None None (Some ''1700000000000'')
       (Some (Part (Some [hdr ''From'' ''Al <a@b.cc>'',
                          hdr ''Received'' ''by mx1'',
                          hdr ''Received'' ''by mx2''])
                   (Some ''text/plain'') None None None None))"

text \<open>A message without a \<open>From\<close> header.\<close>

definition message_no_from :: message where
  "message_no_from =
     Message (Some ''m2'') (Some ''t2'') None None (Some ''1700000000000'')
       (Some (Part (Some [hdr ''Subject'' ''hello'']) (Some ''text/plain'') None None None None))"

text \<open>The record of a message, and the state of the store after persisting it.\<close>

definition record_of :: "message \<Rightarrow> (string \<times> pyval) list" where
  "record_of m =
     (case extract_email_data m None of
        Inr (PDict d) \<Rightarrow> d
      | _ \<Rightarrow> [])"

definition identity_order :: "pyval list list \<Rightarrow> pyval list list" where
  "identity_order ts = ts"

definition persisted :: "conn \<Rightarrow> (string \<times> pyval) list \<Rightarrow> conn option \<times> outcome" where
  "persisted c email_data = insert_message no_fault identity_order (Some c) email_data True"

text \<open>The store after persisting \<open>message_two_hops\<close> into the empty store.\<close>

definition store_two_hops :: db where
  "store_two_hops =
     \<lparr>email_address = [[SText ''a@b.cc'', SText ''Al''] @ replicate 23 Null],
      emails = [[SText ''m1'', SText ''t1'', SText ''a@b.cc'', Null, Null, Null, Null,
                 SInt 1700000000000, SText ''by mx1'', SText ''text/plain'', Null, Null,
                 SJson (PList []), SJson (PList []), SJson (PList []), Null, Null,
                 SInt 0, SInt 0, SInt 0, SInt 0, SInt 0]],
      email_attachments = [], email_xheaders = [], email_labels = [],
      email_routing_headers = [], email_authentication = []\<rparr>"

text \<open>
  A message with a recipient and without a \<open>From\<close> header, and the store that holds
  nothing but the address of that recipient.
\<close>

definition message_to_only :: message where
  "message_to_only =
     Message (Some ''m3'') (Some ''t3'') None None (Some ''1700000000000'')
       (Some (Part (Some [hdr ''To'' ''Bo <x@y.zz>'']) (Some ''text/plain'') None None None None))"

definition store_address_only :: db where
  "store_address_only =
     empty_db\<lparr>email_address := [[SText ''x@y.zz'', SText ''Bo''] @ replicate 23 Null]\<rparr>"

section \<open>The body search as the specification words it\<close>

text \<open>The parts of a tree in depth-first order, a part before its children.\<close>

fun preorder :: "part list \<Rightarrow> part list" where
  "preorder [] = []"
| "preorder (Part hs mt fn pid b sub # ps) =
     Part hs mt fn pid b sub
     # (case sub of None \<Rightarrow> [] | Some children \<Rightarrow> preorder children) @ preorder ps"

text \<open>A part of the requested type that carries inline data, and its decoded text.\<close>

definition carries_type :: "string \<Rightarrow> part \<Rightarrow> bool" where
  "carries_type mime_type p = (mimeType p = Some mime_type \<and> body_data p \<noteq> None)"

definition part_text :: "part \<Rightarrow> error + string" where
  "part_text p = (case body_data p of None \<Rightarrow> Inr [] | Some d \<Rightarrow> decode_body d)"

text \<open>
  \<open>find_body\<close>: the text of the first part in depth-first order that has the requested
  type and carries inline data, nothing without such a part.
\<close>

definition find_body :: "part list \<Rightarrow> string \<Rightarrow> error + string option" where
  "find_body tree mime_type =
     (case find (carries_type mime_type) (preorder tree) of
        None \<Rightarrow> Inr None
      | Some p \<Rightarrow> map_sum id Some (part_text p))"

definition leaf :: "string \<Rightarrow> string \<Rightarrow> part" where
  "leaf mime_type d = Part None (Some mime_type) None None (Some (Body (Some d) None)) None"

definition multipart :: "string \<Rightarrow> part list \<Rightarrow> part" where
  "multipart mime_type children = Part None (Some mime_type) None None None (Some children)"

text \<open>
  A plain leaf beside a \<open>multipart/alternative\<close> with an HTML leaf (the texts are
  \<open>hi\<close> and \<open><b>\<close>), and two trees with a plain leaf whose data decodes to the empty
  text, at top level and nested.
\<close>

definition tree_plain_html :: "part list" where
  "tree_plain_html =
     [leaf ''text/plain'' ''aGk='',
      multipart ''multipart/alternative'' [leaf ''text/html'' ''PGI-'']]"

definition tree_empty_top :: "part list" where
  "tree_empty_top = [leaf ''text/plain'' ''===='', leaf ''text/plain'' ''aGk='']"

definition tree_empty_nested :: "part list" where
  "tree_empty_nested =
     [multipart ''multipart/alternative'' [leaf ''text/plain'' ''===='']
      , leaf ''text/plain'' ''aGk='']"

section \<open>Child collections and well-formed messages\<close>





text \<open>A message whose internal date is no number.\<close>

definition message_bad_internal_date :: message where
  "message_bad_internal_date = Message (Some ''m4'') None None None (Some ''abc'') None"

text \<open>A message with a date, a recipient list and an authentication header that do not parse.\<close>

definition message_garbage_fields :: message where
  "message_garbage_fields =
     Message (Some ''m5'') None None None None
       (Some (Part (Some [hdr ''Date'' ''garbage'', hdr ''To'' ''<<>>'',
                          hdr ''Authentication-Results'' ''none'']) None None None None None))"

text \<open>
  Conditions that suffice for the normalizer not to raise: the message has an id,
  every header has a name and a value, the internal date (when present) is an integer
  literal, and the raw source and every inline body are valid base64.
\<close>

definition decodable :: "string \<Rightarrow> bool" where
  "decodable d = (\<not> isl (urlsafe_b64decode d))"

definition body_decodable :: "part \<Rightarrow> bool" where
  "body_decodable p = (case body_data p of None \<Rightarrow> True | Some d \<Rightarrow> decodable d)"

definition well_formed :: "message \<Rightarrow> string option \<Rightarrow> bool" where
  "well_formed m raw_source =
     (let pl = (case payload m of None \<Rightarrow> empty_part | Some p \<Rightarrow> p);
          hs = (case headers pl of None \<Rightarrow> [] | Some h \<Rightarrow> h)
      in id_m m \<noteq> None
         \<and> list_all (\<lambda>h. name h \<noteq> None \<and> value_h h \<noteq> None) hs
         \<and> (case internalDate m of None \<Rightarrow> True | Some s \<Rightarrow> \<not> isl (py_int s))
         \<and> (case raw_source of None \<Rightarrow> True | Some r \<Rightarrow> r = [] \<or> decodable r)
         \<and> (case parts pl of
               None \<Rightarrow> body_decodable pl
             | Some ps \<Rightarrow> list_all body_decodable (preorder ps)))"

text \<open>The payload and the header list that the normalizer works on.\<close>

definition payload_of :: "message \<Rightarrow> part" where
  "payload_of m = (case payload m of None \<Rightarrow> empty_part | Some p \<Rightarrow> p)"

definition headers_of :: "message \<Rightarrow> header list" where
  "headers_of m = (case headers (payload_of m) of None \<Rightarrow> [] | Some h \<Rightarrow> h)"


chapter \<open>Theorems\<close>

section \<open>Recipient Parser: a quoted display name\<close>

text \<open>
  C1. For a header of the shape \<open>"Name" <addr>\<close> the parser should return the one pair
  \<open>(Name, addr)\<close> with the quotes stripped. The name part of the pattern excludes the
  double quote, so the closing quote stands between the name and \<open><\<close> and the first
  alternative never matches a quoted name; the address is then found by the second
  alternative, without its name. On \<open>"Alice Smith" <alice@x.com>\<close> the parser returns
  the pair with the empty name.
\<close>

theorem parse_recipients_quoted_name_lost:
  "parse_recipients (Some (CHR 0x22 # ''Alice Smith'' @ CHR 0x22 # '' <alice@x.com>''))
     = [([], ''alice@x.com'')]"
  by code_simp

section \<open>Example runs\<close>

lemma record_two_hops:
  "record_of message_two_hops =
     [(''message_id'', PStr ''m1''), (''thread_id'', PStr ''t1''),
      (''sender_email'', PStr ''a@b.cc''), (''subject'', PNone),
      (''body_text'', PNone), (''body_html'', PNone),
      (''sent_timestamp'', PNone), (''internal_date_ms'', PInt 1700000000000),
      (''date_received'', PStr ''by mx1''), (''mime_type'', PStr ''text/plain''),
      (''content_transfer_encoding'', PNone), (''to_recipients'', PList []),
      (''cc_recipients'', PList []), (''bcc_recipients'', PList []),
      (''sender'', PStr ''Al <a@b.cc>''), (''sender_name'', PStr ''Al''),
      (''snippet'', PNone), (''raw_source'', PNone),
      (''attachments'', PList []), (''xheaders'', PList []),
      (''labels'', PList []), (''authentication_results'', PNone),
      (''additional_parts'', PList []), (''return_path'', PNone),
      (''header_sender'', PNone)]"
  by code_simp

lemma record_no_from:
  "record_of message_no_from =
     [(''message_id'', PStr ''m2''), (''thread_id'', PStr ''t2''),
      (''sender_email'', PStr []), (''subject'', PStr ''hello''),
      (''body_text'', PNone), (''body_html'', PNone),
      (''sent_timestamp'', PNone), (''internal_date_ms'', PInt 1700000000000),
      (''date_received'', PNone), (''mime_type'', PStr ''text/plain''),
      (''content_transfer_encoding'', PNone), (''to_recipients'', PList []),
      (''cc_recipients'', PList []), (''bcc_recipients'', PList []),
      (''sender'', PNone), (''sender_name'', PNone), (''snippet'', PNone),
      (''raw_source'', PNone), (''attachments'', PList []),
      (''xheaders'', PList []), (''labels'', PList []),
      (''authentication_results'', PNone), (''additional_parts'', PList []),
      (''return_path'', PNone), (''header_sender'', PNone)]"
  by code_simp

lemma persisted_two_hops:
  "persisted (commit empty_db) (record_of message_two_hops) = (Some (commit store_two_hops), Inserted)"
  unfolding record_two_hops by code_simp

lemma persisted_no_from_empty:
  "persisted (commit empty_db) (record_of message_no_from)
     = (Some (commit empty_db), Failed IntegrityError)"
  unfolding record_no_from by code_simp

section \<open>Persistence failure: the report after the commit\<close>

lemma record_to_only:
  "record_of message_to_only =
     [(''message_id'', PStr ''m3''), (''thread_id'', PStr ''t3''),
      (''sender_email'', PStr []), (''subject'', PNone), (''body_text'', PNone),
      (''body_html'', PNone), (''sent_timestamp'', PNone),
      (''internal_date_ms'', PInt 1700000000000), (''date_received'', PNone),
      (''mime_type'', PStr ''text/plain''),
      (''content_transfer_encoding'', PNone),
      (''to_recipients'', PList [PTuple [PStr ''Bo'', PStr ''x@y.zz'']]),
      (''cc_recipients'', PList []), (''bcc_recipients'', PList []),
      (''sender'', PNone), (''sender_name'', PNone), (''snippet'', PNone),
      (''raw_source'', PNone), (''attachments'', PList []),
      (''xheaders'', PList []), (''labels'', PList []),
      (''authentication_results'', PNone), (''additional_parts'', PList []),
      (''return_path'', PNone), (''header_sender'', PNone)]"
  by code_simp

text \<open>
  The statements of the message without a sender: the address of the recipient is
  written, then the parent row is refused by the foreign key of \<open>sender_email\<close>.
\<close>

lemma body_to_only:
  "insert_body no_fault identity_order (record_of message_to_only) (PStr ''m3'') (0, empty_db)
     = (Some IntegrityError, (1, store_address_only))"
  unfolding record_to_only by code_simp

lemma failed_to_only:
  "insert_message no_fault identity_order (Some (commit empty_db)) (record_of message_to_only) True
     = (Some (commit empty_db), Failed IntegrityError)"
  unfolding record_to_only by code_simp

text \<open>
  The message with two relays on the empty store: two inserts and four deletes are the
  steps 0 to 5, the commit is step 6, the report is step 7.
\<close>

lemma failed_commit_two_hops:
  "insert_message (fault_at 6) identity_order (Some (commit empty_db))
     (record_of message_two_hops) True = (Some (commit empty_db), Failed OperationalError)"
  unfolding record_two_hops by code_simp

lemma failed_report_two_hops:
  "insert_message (fault_at 7) identity_order (Some (commit empty_db))
     (record_of message_two_hops) True = (Some (commit store_two_hops), Failed OSError)"
  unfolding record_two_hops by code_simp

text \<open>
  Whenever the \<open>except\<close> branch has run and the call has returned, nothing is pending,
  and the committed state is the one before the call, unless the step that failed is
  the report after the commit: then all statements of the message have run and their
  result is committed.
\<close>

lemma insert_message_failed:
  assumes "insert_message fault order (Some c) email_data update_if_exists = (r, Failed e)"
  shows "\<exists>c'. r = Some c' \<and> pending c' = committed c'
           \<and> (committed c' = committed c
               \<or> (e = OSError
                   \<and> (\<exists>n n'. insert_body fault order email_data (py_get email_data ''message_id'')
                                (n, pending c) = (None, (n', committed c')))))"
  using assms
  by (auto simp: insert_message_def Let_def rollback_def commit_def report_def
           split: option.splits sum.splits if_splits prod.splits bool.splits)

text \<open>
  C6. A failure inside \<open>try\<close> should leave the store in its prior state. The report
  \<open>print(...)\<close> stands inside \<open>try\<close> after \<open>commit()\<close>: when the output fails there
  (step 7 for the message with two relays on the empty store), the \<open>except\<close> branch
  rolls back a transaction that is already committed, and the message is reported as
  failed while its parent row is in the store. A failure of the commit itself (step 6)
  leaves the store empty. A failure of a statement after a write is rolled back: for
  the message without a sender the address of the recipient is written, the parent row
  is refused, and the store is empty after the call.
\<close>

theorem insert_message_report_failure_keeps_write:
  "insert_message (fault_at 7) identity_order (Some (commit empty_db))
     (record_of message_two_hops) True = (Some (commit store_two_hops), Failed OSError)
   \<and> committed (commit store_two_hops) \<noteq> committed (commit empty_db)
   \<and> length (emails (committed (commit store_two_hops))) = 1
   \<and> insert_message (fault_at 6) identity_order (Some (commit empty_db))
        (record_of message_two_hops) True = (Some (commit empty_db), Failed OperationalError)
   \<and> insert_body no_fault identity_order (record_of message_to_only) (PStr ''m3'') (0, empty_db)
        = (Some IntegrityError, (1, store_address_only))
   \<and> store_address_only \<noteq> empty_db
   \<and> insert_message no_fault identity_order (Some (commit empty_db))
        (record_of message_to_only) True = (Some (commit empty_db), Failed IntegrityError)"
  using failed_report_two_hops failed_commit_two_hops body_to_only failed_to_only
  by (simp add: commit_def store_two_hops_def store_address_only_def empty_db_def)

section \<open>Routing headers are never extracted\<close>

text \<open>
  C2. A message with two \<open>Received\<close> headers: the record keeps only the first of them
  (as \<open>date_received\<close>) and has no \<open>routing_headers\<close> entry at all, and persisting it
  into the empty store writes the parent row and no row of \<open>email_routing_headers\<close>.
\<close>

theorem two_hops_no_routing_rows:
  "map_of (record_of message_two_hops) ''date_received'' = Some (PStr ''by mx1'')
   \<and> map_of (record_of message_two_hops) ''routing_headers'' = None
   \<and> persisted (commit empty_db) (record_of message_two_hops)
       = (Some (commit store_two_hops), Inserted)
   \<and> email_routing_headers store_two_hops = []
   \<and> length (emails store_two_hops) = 1"
  using persisted_two_hops by (simp add: record_two_hops store_two_hops_def)

section \<open>MIME Body Walker: the first matching part\<close>

lemma find_append:
  "find P (xs @ ys) = (case find P xs of Some x \<Rightarrow> Some x | None \<Rightarrow> find P ys)"
  by (induction xs) auto

lemma find_Some_in: "find P xs = Some x \<Longrightarrow> x \<in> set xs \<and> P x"
  by (induction xs) (auto split: if_splits)

lemma get_body_part_hit:
  assumes "carries_type mime_type (Part hs mt fn pid b sub)"
  shows "get_body_part (Part hs mt fn pid b sub # ps) mime_type
         = map_sum id Some (part_text (Part hs mt fn pid b sub))"
  using assms by (auto simp: carries_type_def part_text_def)

lemma get_body_part_skip:
  assumes "\<not> carries_type mime_type (Part hs mt fn pid b sub)"
  shows "get_body_part (Part hs mt fn pid b sub # ps) mime_type
         = (case sub of
              None \<Rightarrow> get_body_part ps mime_type
            | Some children \<Rightarrow>
                (case get_body_part children mime_type of
                   Inl e \<Rightarrow> Inl e
                 | Inr None \<Rightarrow> get_body_part ps mime_type
                 | Inr (Some t) \<Rightarrow> if t \<noteq> [] then Inr (Some t) else get_body_part ps mime_type))"
  using assms by (auto simp: carries_type_def split: option.splits)

lemma preorder_plain_html:
  "preorder tree_plain_html =
     [leaf ''text/plain'' ''aGk='',
      multipart ''multipart/alternative'' [leaf ''text/html'' ''PGI-''],
      leaf ''text/html'' ''PGI-'']"
  by (simp add: tree_plain_html_def leaf_def multipart_def)

lemma texts_plain_html:
  "part_text (leaf ''text/plain'' ''aGk='') = Inr ''hi''"
  "part_text (leaf ''text/html'' ''PGI-'') = Inr ''<b>''"
  "body_data (multipart ''multipart/alternative'' [leaf ''text/html'' ''PGI-'']) = None"
  by code_simp+

text \<open>
  Where no part of the requested type decodes to the empty text, the walker agrees
  with the search of the specification: it returns the text of the first such part in
  depth-first order (or raises what decoding that part raises), and nothing if there
  is none.
\<close>

lemma get_body_part_first_match:
  assumes "\<forall>p \<in> set (preorder tree). carries_type mime_type p \<longrightarrow> part_text p \<noteq> Inr []"
  shows "get_body_part tree mime_type = find_body tree mime_type"
  using assms
proof (induction tree mime_type rule: get_body_part.induct)
  case (1 mime_type)
  show ?case by (simp add: find_body_def)
next
  case (2 hs mt fn pid b sub ps mime_type)
  let ?p = "Part hs mt fn pid b sub"
  show ?case
  proof (cases "carries_type mime_type ?p")
    case True
    show ?thesis unfolding get_body_part_hit [OF True]
      using True by (simp add: find_body_def)
  next
    case False
    then have sel: "(if mt = Some mime_type then body_data ?p else None) = None"
      by (auto simp: carries_type_def)
    show ?thesis
    proof (cases sub)
      case None
      have "get_body_part ps mime_type = find_body ps mime_type"
        using "2.IH"(1) [OF sel None] "2.prems" None by simp
      then show ?thesis unfolding get_body_part_skip [OF False]
        using False None by (simp add: find_body_def)
    next
      case (Some children)
      have ih_c: "get_body_part children mime_type = find_body children mime_type"
        using "2.IH"(2) [OF sel Some] "2.prems" Some by simp
      show ?thesis
      proof (cases "find (carries_type mime_type) (preorder children)")
        case None
        then have c_none: "get_body_part children mime_type = Inr None"
          using ih_c by (simp add: find_body_def)
        have "get_body_part ps mime_type = find_body ps mime_type"
          using "2.IH"(3) [OF sel Some c_none] "2.prems" Some by simp
        then show ?thesis unfolding get_body_part_skip [OF False]
          using False Some None c_none by (simp add: find_body_def find_append)
      next
        case found: (Some q)
        then have "q \<in> set (preorder children)" and "carries_type mime_type q"
          using find_Some_in by fastforce+
        then have ne: "part_text q \<noteq> Inr []"
          using "2.prems" Some by auto
        have "get_body_part children mime_type = map_sum id Some (part_text q)"
          using ih_c found by (simp add: find_body_def)
        then show ?thesis unfolding get_body_part_skip [OF False]
          using False Some found ne
          by (cases "part_text q") (simp_all add: find_body_def find_append)
      qed
    qed
  qed
qed

text \<open>
  The tree with a top-level \<open>text/plain\<close> leaf and a nested \<open>multipart/alternative\<close>
  holding a \<open>text/html\<close> leaf: the plain leaf for \<open>text/plain\<close>, the nested leaf for
  \<open>text/html\<close>.
\<close>

lemma get_body_part_plain_html:
  "get_body_part tree_plain_html ''text/plain'' = Inr (Some ''hi'')
   \<and> get_body_part tree_plain_html ''text/html'' = Inr (Some ''<b>'')
   \<and> get_body_part tree_plain_html ''text/calendar'' = Inr None"
proof -
  have ok: "\<forall>p \<in> set (preorder tree_plain_html). carries_type mt p \<longrightarrow>
              part_text p \<noteq> Inr []" for mt
    by (simp add: preorder_plain_html texts_plain_html carries_type_def)
  have "find_body tree_plain_html ''text/plain'' = Inr (Some ''hi'')"
       "find_body tree_plain_html ''text/html'' = Inr (Some ''<b>'')"
       "find_body tree_plain_html ''text/calendar'' = Inr None"
    by code_simp+
  then show ?thesis
    using get_body_part_first_match [OF ok, of "''text/plain''"]
          get_body_part_first_match [OF ok, of "''text/html''"]
          get_body_part_first_match [OF ok, of "''text/calendar''"]
    by simp
qed

text \<open>
  C8. \<open>find_body\<close> should return the text of the first part in depth-first order whose
  MIME type equals the requested type and which carries inline data. The walker tests
  the result of its recursive call for truth, so a nested match whose data decodes to
  the empty text is passed over and the search goes on: on the tree whose nested
  \<open>text/plain\<close> leaf has the data \<open>====\<close> (the empty text) and whose second top-level
  part is a \<open>text/plain\<close> leaf with the text \<open>hi\<close>, the walker returns \<open>hi\<close>, where
  the first matching part has the empty text. The same leaf at top level is returned
  as it is, with its empty text.
\<close>

theorem get_body_part_skips_empty_nested_text:
  "get_body_part tree_empty_nested ''text/plain'' = Inr (Some ''hi'')
   \<and> find_body tree_empty_nested ''text/plain'' = Inr (Some [])
   \<and> get_body_part tree_empty_top ''text/plain'' = Inr (Some [])
   \<and> find_body tree_empty_top ''text/plain'' = Inr (Some [])"
  by code_simp

section \<open>Date Normalizer\<close>

lemma iso_text_examples:
  "iso_text ''Tue, 15 Apr 2025 10:30:00 -0700'' = '' ue, 15 Apr 2025 10:30:00 -0700''"
  "iso_text ''garbage'' = ''garbage''"
  "iso_text ''2025-04-15T10:30:00 (UTC)'' = ''2025-04-15 10:30:00+00:00''"
  "iso_text ''2025-04-15 10:30:00 (GMT)'' = ''2025-04-15 10:30:00+00:00''"
  "iso_text ''2025-04-15T10:30:00'' = ''2025-04-15 10:30:00''"
  by code_simp+

lemma fromisoformat_examples:
  "fromisoformat [] = None"
  "fromisoformat '' ue, 15 Apr 2025 10:30:00 -0700'' = None"
  "fromisoformat ''garbage'' = None"
  "fromisoformat ''2025-04-15 10:30:00+00:00'' = Some (Datetime 2025 4 15 10 30 0 0 (Some 0))"
  "fromisoformat ''2025-04-15 10:30:00'' = Some (Datetime 2025 4 15 10 30 0 0 None)"
  "fromisoformat ''2025-04-15T10:30:00 (UTC)'' = None"
  "fromisoformat ''2025-04-15 10:30:00 (GMT)'' = None"
  by code_simp+

lemma strptime_examples:
  "strptime_rfc [] = None"
  "strptime_rfc ''Tue, 15 Apr 2025 10:30:00 -0700''
     = Some (Datetime 2025 4 15 10 30 0 0 (Some (- 25200000000)))"
  "strptime_rfc ''garbage'' = None"
  "strptime_rfc ''2025-04-15T10:30:00 (UTC)'' = None"
  "strptime_rfc ''2025-04-15 10:30:00 (GMT)'' = None"
  by code_simp+

text \<open>
  C9. For every Date header the normalizer takes the result of the ISO parse of the
  header with \<open> (UTC)\<close> and \<open> (GMT)\<close> turned into \<open>+00:00\<close> and \<open>T\<close> into a space when
  that parse succeeds, and the result of the RFC-2822 parse of the header as it came
  otherwise; no case raises. \<open>Tue, 15 Apr 2025 10:30:00 -0700\<close> yields
  2025-04-15T10:30:00 at UTC-7 (an offset of -25200 seconds) and \<open>garbage\<close> yields
  nothing. \<open>2025-04-15T10:30:00 (UTC)\<close> and \<open>2025-04-15 10:30:00 (GMT)\<close> yield
  2025-04-15T10:30:00 at UTC, where neither parser accepts the header as it came.
\<close>

theorem date_normalizer_two_stages:
  "parse_date (Some s)
     = (case fromisoformat
               (replace (replace (replace s '' (UTC)'' ''+00:00'') '' (GMT)'' ''+00:00'')
                  ''T'' '' '') of
          Some d \<Rightarrow> Some d
        | None \<Rightarrow> strptime_rfc s)
   \<and> parse_date None = None
   \<and> parse_date (Some ''Tue, 15 Apr 2025 10:30:00 -0700'')
       = Some (Datetime 2025 4 15 10 30 0 0 (Some (- 25200000000)))
   \<and> parse_date (Some ''garbage'') = None
   \<and> parse_date (Some ''2025-04-15T10:30:00 (UTC)'')
       = Some (Datetime 2025 4 15 10 30 0 0 (Some 0))
   \<and> fromisoformat ''2025-04-15T10:30:00 (UTC)'' = None
   \<and> strptime_rfc ''2025-04-15T10:30:00 (UTC)'' = None
   \<and> parse_date (Some ''2025-04-15 10:30:00 (GMT)'')
       = Some (Datetime 2025 4 15 10 30 0 0 (Some 0))
   \<and> fromisoformat ''2025-04-15 10:30:00 (GMT)'' = None
   \<and> strptime_rfc ''2025-04-15 10:30:00 (GMT)'' = None
   \<and> parse_date (Some ''2025-04-15T10:30:00'') = Some (Datetime 2025 4 15 10 30 0 0 None)"
proof -
  have general: "parse_date (Some s)
     = (case fromisoformat
               (replace (replace (replace s '' (UTC)'' ''+00:00'') '' (GMT)'' ''+00:00'')
                  ''T'' '' '') of
          Some d \<Rightarrow> Some d
        | None \<Rightarrow> strptime_rfc s)"
  proof (cases "s = []")
    case True
    have "iso_text [] = []" by code_simp
    then show ?thesis
      using True fromisoformat_examples(1) strptime_examples(1)
      by (simp add: parse_date_def iso_text_def)
  next
    case False
    then show ?thesis by (simp add: parse_date_def iso_text_def)
  qed
  show ?thesis
    using general
    by (simp add: parse_date_def iso_text_examples fromisoformat_examples strptime_examples)
qed

text \<open>The header \<open>20250415T1030 (UTC)\<close>, read by the first stage.\<close>

theorem date_normalizer_two_stages_witness:
  "parse_date (Some ''20250415T1030 (UTC)'') = Some (Datetime 2025 4 15 10 30 0 0 (Some 0))"
proof -
  have "replace (replace (replace ''20250415T1030 (UTC)'' '' (UTC)'' ''+00:00'')
           '' (GMT)'' ''+00:00'') ''T'' '' '' = ''20250415 1030+00:00''"
    by code_simp
  moreover have "fromisoformat ''20250415 1030+00:00''
                   = Some (Datetime 2025 4 15 10 30 0 0 (Some 0))"
    by code_simp
  ultimately show ?thesis
    using date_normalizer_two_stages [of "''20250415T1030 (UTC)''"] by simp
qed

section \<open>The record of a message\<close>

text \<open>A record that is not empty is the result of a run that did not raise.\<close>

lemma record_of_extracted:
  assumes "record_of m \<noteq> []"
  shows "extract_email_data m None = Inr (PDict (record_of m))"
  using assms by (auto simp: record_of_def split: sum.splits pyval.splits)

lemma bind_e_Inr: "bind_e r f = Inr v \<longleftrightarrow> (\<exists>x. r = Inr x \<and> f x = Inr v)"
  by (cases r) (simp_all add: bind_e_def)







lemma extract_email_data_InrE:
  assumes "extract_email_data m raw_source = Inr r"
  obtains bt bh atts others xs ls date_h from_h subject idate received cte to_h cc_h bcc_h
          raw auth_h return_path header_sender
  where "extract_parts m (payload_of m) = Inr (bt, bh, atts, others)"
    and "xheaders_of m (headers_of m) = Inr xs"
    and "labels_of m = Inr ls"
    and "get_header (headers_of m) ''Date'' = Inr date_h"
    and "get_header (headers_of m) ''From'' = Inr from_h"
    and "get_header (headers_of m) ''Subject'' = Inr subject"
    and "internal_date_ms m = Inr idate"
    and "get_header (headers_of m) ''Received'' = Inr received"
    and "get_header (headers_of m) ''Content-Transfer-Encoding'' = Inr cte"
    and "get_header (headers_of m) ''To'' = Inr to_h"
    and "get_header (headers_of m) ''Cc'' = Inr cc_h"
    and "get_header (headers_of m) ''Bcc'' = Inr bcc_h"
    and "decode_raw_source raw_source = Inr raw"
    and "get_header (headers_of m) ''Authentication-Results'' = Inr auth_h"
    and "get_header (headers_of m) ''Return-Path'' = Inr return_path"
    and "get_header (headers_of m) ''Sender'' = Inr header_sender"
    and "r = PDict
        [(''message_id'', popt (id_m m)),
         (''thread_id'', popt (threadId m)),
         (''sender_email'', fst (parse_sender from_h)),
         (''subject'', popt subject),
         (''body_text'', bt),
         (''body_html'', bh),
         (''sent_timestamp'',
            (case parse_date date_h of
               None \<Rightarrow> PNone | Some d \<Rightarrow> PDatetime d)),
         (''internal_date_ms'', PInt idate),
         (''date_received'', popt received),
         (''mime_type'', popt (mimeType (payload_of m))),
         (''content_transfer_encoding'', popt cte),
         (''to_recipients'', recipients_val (parse_recipients to_h)),
         (''cc_recipients'', recipients_val (parse_recipients cc_h)),
         (''bcc_recipients'', recipients_val (parse_recipients bcc_h)),
         (''sender'', popt from_h),
         (''sender_name'', snd (parse_sender from_h)),
         (''snippet'', popt (snippet m)),
         (''raw_source'', raw),
         (''attachments'', PList atts),
         (''xheaders'', PList xs),
         (''labels'', PList ls),
         (''authentication_results'', parse_auth_results auth_h),
         (''additional_parts'', PList others),
         (''return_path'', popt return_path),
         (''header_sender'', popt header_sender)]"
  using assms
  by (auto simp: extract_email_data_def Let_def bind_e_Inr payload_of_def headers_of_def
           split: prod.splits)

section \<open>Child collections and the message id\<close>





section \<open>A malformed internal date is raised\<close>

lemma record_garbage_fields:
  "record_of message_garbage_fields =
     [(''message_id'', PStr ''m5''), (''thread_id'', PNone),
      (''sender_email'', PStr []), (''subject'', PNone), (''body_text'', PNone),
      (''body_html'', PNone), (''sent_timestamp'', PNone),
      (''internal_date_ms'', PInt 0), (''date_received'', PNone),
      (''mime_type'', PNone), (''content_transfer_encoding'', PNone),
      (''to_recipients'', PList []), (''cc_recipients'', PList []),
      (''bcc_recipients'', PList []), (''sender'', PNone),
      (''sender_name'', PNone), (''snippet'', PNone), (''raw_source'', PNone),
      (''attachments'', PList []), (''xheaders'', PList []),
      (''labels'', PList []), (''authentication_results'', PNone),
      (''additional_parts'', PList []), (''return_path'', PNone),
      (''header_sender'', PNone)]"
  by code_simp

lemma bad_internal_date_raises:
  "extract_email_data message_bad_internal_date None = Inl ValueError"
  by code_simp

text \<open>The parts of the normalizer that can raise, and when they do not.\<close>

lemma get_header_total:
  assumes "list_all (\<lambda>h. name h \<noteq> None \<and> value_h h \<noteq> None) hs"
  shows "\<exists>v. get_header hs n = Inr v"
  using assms by (induction hs) auto

lemma xheaders_of_total:
  assumes "list_all (\<lambda>h. name h \<noteq> None \<and> value_h h \<noteq> None) hs" and "id_m m \<noteq> None"
  shows "\<exists>xs. xheaders_of m hs = Inr xs"
  using assms by (induction hs) (auto simp: bind_e_def message_id_of_def)

lemma labels_of_total:
  assumes "id_m m \<noteq> None"
  shows "\<exists>ls. labels_of m = Inr ls"
  using assms by (auto simp: labels_of_def bind_e_def message_id_of_def split: option.splits)

lemma classify_parts_total:
  assumes "id_m m \<noteq> None"
  shows "\<exists>r. classify_parts m ps = Inr r"
proof (induction ps)
  case Nil
  show ?case by simp
next
  case (Cons p ps)
  then obtain a b where "classify_parts m ps = Inr (a, b)" by (cases "classify_parts m ps") auto
  then show ?case using assms by (auto simp: bind_e_def message_id_of_def)
qed

lemma decode_body_total: "decodable d \<Longrightarrow> \<exists>t. decode_body d = Inr t"
  by (cases "urlsafe_b64decode d") (auto simp: decodable_def decode_body_def)

lemma get_body_part_total:
  assumes "list_all body_decodable (preorder ps)"
  shows "\<exists>r. get_body_part ps mime_type = Inr r"
  using assms
proof (induction ps mime_type rule: get_body_part.induct)
  case (1 mime_type)
  show ?case by simp
next
  case (2 hs mt fn pid b sub ps mime_type)
  let ?p = "Part hs mt fn pid b sub"
  show ?case
  proof (cases "carries_type mime_type ?p")
    case True
    then obtain d where "body_data ?p = Some d" by (auto simp: carries_type_def)
    moreover from this "2.prems" have "decodable d" by (simp add: body_decodable_def)
    ultimately show ?thesis
      unfolding get_body_part_hit [OF True]
      using decode_body_total [of d] by (auto simp: part_text_def)
  next
    case False
    then have sel: "(if mt = Some mime_type then body_data ?p else None) = None"
      by (auto simp: carries_type_def)
    show ?thesis
    proof (cases sub)
      case None
      then show ?thesis
        unfolding get_body_part_skip [OF False]
        using "2.IH"(1) [OF sel None] "2.prems" by simp
    next
      case (Some children)
      then obtain rc where rc: "get_body_part children mime_type = Inr rc"
        using "2.IH"(2) [OF sel Some] "2.prems" by auto
      have rest: "(rc = None \<or> rc = Some []) \<Longrightarrow> \<exists>r. get_body_part ps mime_type = Inr r"
        using "2.IH"(3) [OF sel Some rc] "2.IH"(4) [OF sel Some rc] "2.prems" Some
        by (cases rc) auto
      show ?thesis
        unfolding get_body_part_skip [OF False]
        using Some rc rest by (cases rc) auto
    qed
  qed
qed

lemma extract_parts_total:
  assumes "id_m m \<noteq> None"
    and "case parts pl of None \<Rightarrow> body_decodable pl | Some ps \<Rightarrow> list_all body_decodable (preorder ps)"
  shows "\<exists>r. extract_parts m pl = Inr r"
proof (cases "parts pl")
  case None
  then show ?thesis
    using assms(2) decode_body_total
    by (fastforce simp: extract_parts_def body_decodable_def bind_e_def split: option.splits)
next
  case (Some ps)
  then have dec: "list_all body_decodable (preorder ps)" using assms(2) by simp
  obtain t h c where "get_body_part ps ''text/plain'' = Inr t"
    "get_body_part ps ''text/html'' = Inr h" "classify_parts m ps = Inr c"
    using get_body_part_total [OF dec] classify_parts_total [OF assms(1)] by metis
  then show ?thesis
    using Some by (cases c) (simp add: extract_parts_def bind_e_def)
qed

lemma decode_raw_source_total:
  assumes "case raw_source of None \<Rightarrow> True | Some r \<Rightarrow> r = [] \<or> decodable r"
  shows "\<exists>r. decode_raw_source raw_source = Inr r"
proof (cases raw_source)
  case None
  then show ?thesis by (simp add: decode_raw_source_def)
next
  case (Some a)
  show ?thesis
  proof (cases "urlsafe_b64decode a")
    case (Inl e)
    then show ?thesis using assms Some by (simp add: decode_raw_source_def decodable_def)
  next
    case (Inr bs)
    then show ?thesis using Some by (simp add: decode_raw_source_def bind_e_def)
  qed
qed

text \<open>
  Where the message has an id, every header a name and a value, the internal date is
  an integer literal, and the raw source and the inline bodies are valid base64, the
  normalizer returns a record.
\<close>

lemma no_raise:
  assumes "well_formed message raw_source"
  shows "\<exists>d. extract_email_data message raw_source = Inr (PDict d)"
proof -
  let ?pl = "case payload message of None \<Rightarrow> empty_part | Some p \<Rightarrow> p"
  let ?hs = "case headers ?pl of None \<Rightarrow> [] | Some h \<Rightarrow> h"
  from assms have id: "id_m message \<noteq> None"
    and hs: "list_all (\<lambda>h. name h \<noteq> None \<and> value_h h \<noteq> None) ?hs"
    and idate: "case internalDate message of None \<Rightarrow> True | Some s \<Rightarrow> \<not> isl (py_int s)"
    and raw: "case raw_source of None \<Rightarrow> True | Some r \<Rightarrow> r = [] \<or> decodable r"
    and bodies: "case parts ?pl of None \<Rightarrow> body_decodable ?pl
                 | Some ps \<Rightarrow> list_all body_decodable (preorder ps)"
    by (simp_all add: well_formed_def Let_def)
  obtain p where p: "extract_parts message ?pl = Inr p"
    using extract_parts_total [OF id bodies] by auto
  obtain xs where xs: "xheaders_of message ?hs = Inr xs"
    using xheaders_of_total [OF hs id] by auto
  obtain ls where ls: "labels_of message = Inr ls"
    using labels_of_total [OF id] by auto
  have gh: "\<exists>v. get_header ?hs n = Inr v" for n
    using get_header_total [OF hs] by simp
  obtain n where n: "internal_date_ms message = Inr n"
    using idate by (cases "internalDate message"; cases "py_int (the (internalDate message))")
                   (auto simp: internal_date_ms_def)
  obtain r where r: "decode_raw_source raw_source = Inr r"
    using decode_raw_source_total [OF raw] by auto
  obtain h1 where h1: "get_header ?hs ''Date'' = Inr h1" using gh by blast
  obtain h2 where h2: "get_header ?hs ''From'' = Inr h2" using gh by blast
  obtain h3 where h3: "get_header ?hs ''Subject'' = Inr h3" using gh by blast
  obtain h4 where h4: "get_header ?hs ''Received'' = Inr h4" using gh by blast
  obtain h5 where h5: "get_header ?hs ''Content-Transfer-Encoding'' = Inr h5" using gh by blast
  obtain h6 where h6: "get_header ?hs ''To'' = Inr h6" using gh by blast
  obtain h7 where h7: "get_header ?hs ''Cc'' = Inr h7" using gh by blast
  obtain h8 where h8: "get_header ?hs ''Bcc'' = Inr h8" using gh by blast
  obtain h9 where h9: "get_header ?hs ''Authentication-Results'' = Inr h9" using gh by blast
  obtain h10 where h10: "get_header ?hs ''Return-Path'' = Inr h10" using gh by blast
  obtain h11 where h11: "get_header ?hs ''Sender'' = Inr h11" using gh by blast
  show ?thesis
    using p xs ls n r h1 h2 h3 h4 h5 h6 h7 h8 h9 h10 h11
    by (cases p) (simp add: extract_email_data_def Let_def bind_e_def)
qed

text \<open>
  C3. The normalizer should degrade a malformed sub-field to its default. It does so
  for a date, a recipient list and an authentication header that do not parse (the
  record of the message with such fields has no timestamp, no recipients and no
  authentication results), and for a missing internal date (0). An internal date that
  is no integer literal is given to \<open>int\<close> outside any \<open>try\<close>: the ValueError leaves
  \<open>extract_email_data\<close> and there is no record.
\<close>

theorem bad_internal_date_is_raised:
  "extract_email_data message_bad_internal_date None = Inl ValueError
   \<and> internalDate message_bad_internal_date = Some ''abc''
   \<and> extract_email_data message_garbage_fields None
       = Inr (PDict (record_of message_garbage_fields))
   \<and> map (py_get (record_of message_garbage_fields))
        [''sent_timestamp'', ''to_recipients'', ''authentication_results'',
         ''internal_date_ms'']
       = [PNone, PList [], PNone, PInt 0]"
proof -
  have ne: "record_of message_garbage_fields \<noteq> []"
    by (simp add: record_garbage_fields)
  show ?thesis
    using bad_internal_date_raises record_of_extracted [OF ne]
    by (simp add: record_garbage_fields py_get_def message_bad_internal_date_def)
qed

section \<open>A message without a sender is not persisted\<close>

text \<open>
  Without a \<open>From\<close> header the record has the empty text as \<open>sender_email\<close> and no
  \<open>sender_name\<close>.
\<close>

lemma no_from_sender:
  assumes "extract_email_data m raw_source = Inr (PDict d)"
      and "get_header (headers_of m) ''From'' = Inr None"
  shows "py_get d ''sender_email'' = PStr [] \<and> py_get d ''sender_name'' = PNone"
  using assms(1)
proof (rule extract_email_data_InrE)
  fix bt bh atts others xs ls date_h from_h subject idate received cte to_h cc_h bcc_h
      raw auth_h return_path header_sender
  assume "get_header (headers_of m) ''From'' = Inr from_h"
  then have none: "from_h = None" using assms(2) by simp
  assume "PDict d = PDict
        [(''message_id'', popt (id_m m)),
         (''thread_id'', popt (threadId m)),
         (''sender_email'', fst (parse_sender from_h)),
         (''subject'', popt subject),
         (''body_text'', bt),
         (''body_html'', bh),
         (''sent_timestamp'',
            (case parse_date date_h of
               None \<Rightarrow> PNone | Some d \<Rightarrow> PDatetime d)),
         (''internal_date_ms'', PInt idate),
         (''date_received'', popt received),
         (''mime_type'', popt (mimeType (payload_of m))),
         (''content_transfer_encoding'', popt cte),
         (''to_recipients'', recipients_val (parse_recipients to_h)),
         (''cc_recipients'', recipients_val (parse_recipients cc_h)),
         (''bcc_recipients'', recipients_val (parse_recipients bcc_h)),
         (''sender'', popt from_h),
         (''sender_name'', snd (parse_sender from_h)),
         (''snippet'', popt (snippet m)),
         (''raw_source'', raw),
         (''attachments'', PList atts),
         (''xheaders'', PList xs),
         (''labels'', PList ls),
         (''authentication_results'', parse_auth_results auth_h),
         (''additional_parts'', PList others),
         (''return_path'', popt return_path),
         (''header_sender'', popt header_sender)]"
  then show ?thesis
    using none by (simp add: py_get_def parse_sender_def)
qed

text \<open>
  C10. The message without a \<open>From\<close> header yields a record with the empty text as
  \<open>sender_email\<close> and no \<open>sender_name\<close>. The empty address should then flow into the
  parent row. It does not: the address table gets no row for the empty address (the
  set of recipient tuples leaves out a tuple with an empty address), so the foreign key
  of \<open>emails.sender_email\<close> refuses the parent row, the transaction is rolled back,
  and the store has no row for the message.
\<close>

theorem no_from_is_not_persisted:
  "extract_email_data message_no_from None = Inr (PDict (record_of message_no_from))
   \<and> py_get (record_of message_no_from) ''sender_email'' = PStr []
   \<and> py_get (record_of message_no_from) ''sender_name'' = PNone
   \<and> persisted (commit empty_db) (record_of message_no_from)
       = (Some (commit empty_db), Failed IntegrityError)
   \<and> emails (committed (commit empty_db)) = []"
proof -
  have ne: "record_of message_no_from \<noteq> []"
    by (simp add: record_no_from)
  show ?thesis
    using record_of_extracted [OF ne] persisted_no_from_empty
    by (simp add: record_no_from py_get_def commit_def empty_db_def)
qed

end
